theory Spec2Isabelle
  imports Complex_Main
begin

section \<open>Values shared by the services\<close>

text \<open>
  A JavaScript \<^verbatim>\<open>Error\<close> is modelled by its message. Every \<^verbatim>\<open>throw\<close> of the
  source is the \<open>Inl\<close> branch of a sum, every normal return the \<open>Inr\<close> branch.
  Times are milliseconds as \<open>int\<close>; the quotients the source computes with
  \<^verbatim>\<open>/\<close> are exact rationals here (the rounding of IEEE doubles is not
  modelled).
\<close>

datatype js_error = Error string

text \<open>A JavaScript number that is the result of a division: a rational, or one of the
  values a division by zero gives (\<^verbatim>\<open>0/0\<close> is \<^verbatim>\<open>NaN\<close>, \<^verbatim>\<open>x/0\<close> an
  infinity). No operation of the source raises on them.\<close>

datatype js_number = Num rat | NaN | PosInfinity | NegInfinity

definition js_div :: "rat \<Rightarrow> rat \<Rightarrow> js_number" where
  "js_div a b =
     (if b = 0 then (if a = 0 then NaN else if a > 0 then PosInfinity else NegInfinity)
      else Num (a / b))"

text \<open>Multiplication by a positive constant.\<close>

definition js_times :: "js_number \<Rightarrow> rat \<Rightarrow> js_number" where
  "js_times x c = (case x of Num a \<Rightarrow> Num (a * c) | other \<Rightarrow> other)"

fun message :: "js_error \<Rightarrow> string" where
  "message (Error m) = m"

text \<open>\<^verbatim>\<open>BatchUploadOptions\<close> and \<^verbatim>\<open>BatchDownloadOptions\<close> of
  \<^verbatim>\<open>packages/sdk-wrapper/src/types.ts\<close>; an optional field is an \<open>option\<close>,
  \<open>None\<close> standing for \<^verbatim>\<open>undefined\<close>. Access conditions are opaque strings;
  of the \<^verbatim>\<open>onProgress\<close> callback only its presence is kept (a call of it is an
  event in the SDK's log).\<close>

record BatchUploadOptions =
  concurrency :: "js_number option"
  encrypt :: "bool option"
  accessConditions :: "string list option"
  tags :: "string list option"
  continueOnError :: "bool option"
  maxRetries :: "nat option"
  onProgress_given :: bool

record BatchDownloadOptions =
  d_concurrency :: "js_number option"
  outputDir :: "string option"
  decrypt :: "bool option"
  d_continueOnError :: "bool option"
  d_maxRetries :: "nat option"
  d_onProgress_given :: bool

record FileInfo =
  hash :: string
  name :: string
  fi_size :: nat
  fi_encrypted :: bool
  mimeType :: string
  fi_uploadedAt :: int

record BatchDownloadFileResult =
  dr_cid :: string
  dr_filePath :: string
  dr_size :: nat
  decrypted :: bool

record 'a BatchFileResult =
  item_id :: string
  success :: bool
  data :: "'a option"
  error :: "string option"
  duration :: int
  retries :: nat

record 'a BatchOperationResult =
  total :: nat
  successful :: nat
  failed :: nat
  successRate :: js_number
  totalDuration :: int
  averageDuration :: js_number
  results :: "'a BatchFileResult list"

section \<open>MockLighthouseService (apps/mcp-server/src/server.ts)\<close>

record StoredFile =
  sf_cid :: string
  sf_filePath :: string
  sf_size :: nat
  sf_encrypted :: bool
  sf_accessConditions :: "string list option"
  sf_tags :: "string list option"
  sf_uploadedAt :: int
  sf_pinned :: bool

record UploadResult =
  ur_cid :: string
  ur_size :: nat
  ur_encrypted :: bool
  ur_accessConditions :: "string list option"
  ur_tags :: "string list option"
  ur_uploadedAt :: int
  originalPath :: string

record DownloadResult =
  dl_filePath :: string
  dl_cid :: string
  dl_size :: nat
  dl_decrypted :: bool
  downloadedAt :: int

text \<open>
  What the mock reads from outside itself: the file system (\<open>fileSize p = None\<close> when
  \<^verbatim>\<open>FileUtils.fileExists(p)\<close> is false), \<^verbatim>\<open>CIDGenerator\<close> (not part of the
  sources at hand, so a parameter) and \<^verbatim>\<open>Math.random()\<close>, an oracle read at the
  current clock value.
\<close>

record env =
  fileSize :: "string \<Rightarrow> nat option"
  generate :: "string \<Rightarrow> string"
  isValid :: "string \<Rightarrow> bool"
  random :: "int \<Rightarrow> rat"

record mock_state =
  fileStore :: "string \<rightharpoonup> StoredFile"
  currentStorageSize :: nat
  maxStorageSize :: nat
  now :: int

text \<open>\<^verbatim>\<open>simulateDelay(minMs, maxMs)\<close>: the clock moves on by
  \<^verbatim>\<open>Math.floor(Math.random() * (maxMs - minMs + 1)) + minMs\<close>.\<close>

definition simulateDelay :: "env \<Rightarrow> int \<Rightarrow> int \<Rightarrow> mock_state \<Rightarrow> mock_state" where
  "simulateDelay e minMs maxMs s =
     s\<lparr>now := now s + (\<lfloor>random e (now s) * of_int (maxMs - minMs + 1)\<rfloor> + minMs)\<rparr>"

record upload_params =
  up_filePath :: string
  up_encrypt :: "bool option"
  up_accessConditions :: "string list option"
  up_tags :: "string list option"

text \<open>\<^verbatim>\<open>x || false\<close> on an optional boolean.\<close>

definition or_false :: "bool option \<Rightarrow> bool" where
  "or_false b = (case b of None \<Rightarrow> False | Some v \<Rightarrow> v)"

definition uploadFile ::
  "env \<Rightarrow> mock_state \<Rightarrow> upload_params \<Rightarrow> (js_error + UploadResult) \<times> mock_state" where
  "uploadFile e s params =
     (let s1 = simulateDelay e 50 100 s in
      case fileSize e (up_filePath params) of
        None \<Rightarrow> (Inl (Error (''File not found: '' @ up_filePath params)), s1)
      | Some sz \<Rightarrow>
          if currentStorageSize s1 + sz > maxStorageSize s1
          then (Inl (Error ''Storage quota exceeded''), s1)
          else
            let cid = generate e (up_filePath params);
                s2 = simulateDelay e 200 400 s1;
                storedFile = \<lparr>sf_cid = cid, sf_filePath = up_filePath params, sf_size = sz,
                              sf_encrypted = or_false (up_encrypt params),
                              sf_accessConditions = up_accessConditions params,
                              sf_tags = up_tags params, sf_uploadedAt = now s2,
                              sf_pinned = True\<rparr>;
                s3 = s2\<lparr>fileStore := (fileStore s2)(cid \<mapsto> storedFile),
                        currentStorageSize := currentStorageSize s2 + sz\<rparr>
            in (Inr \<lparr>ur_cid = cid, ur_size = sz,
                      ur_encrypted = or_false (up_encrypt params),
                      ur_accessConditions = up_accessConditions params,
                      ur_tags = up_tags params, ur_uploadedAt = now s3,
                      originalPath = up_filePath params\<rparr>, s3))"

record fetch_params =
  fp_cid :: string
  fp_outputPath :: "string option"
  fp_decrypt :: "bool option"

text \<open>\<^verbatim>\<open>params.outputPath || storedFile.filePath\<close>: the empty string is falsy too.\<close>

definition or_string :: "string option \<Rightarrow> string \<Rightarrow> string" where
  "or_string a b = (case a of None \<Rightarrow> b | Some v \<Rightarrow> if v = [] then b else v)"

definition fetchFile ::
  "env \<Rightarrow> mock_state \<Rightarrow> fetch_params \<Rightarrow> (js_error + DownloadResult) \<times> mock_state" where
  "fetchFile e s params =
     (if \<not> isValid e (fp_cid params)
      then (Inl (Error (''Invalid CID format: '' @ fp_cid params)), s)
      else case fileStore s (fp_cid params) of
        None \<Rightarrow> (Inl (Error (''File not found: '' @ fp_cid params)), s)
      | Some storedFile \<Rightarrow>
          let s1 = simulateDelay e 50 200 s
          in (Inr \<lparr>dl_filePath = or_string (fp_outputPath params) (sf_filePath storedFile),
                    dl_cid = fp_cid params, dl_size = sf_size storedFile,
                    dl_decrypted = or_false (fp_decrypt params),
                    downloadedAt = now s1\<rparr>, s1))"

text \<open>\<^verbatim>\<open>filePath.split("/").pop() || filePath\<close>: the text after the last slash,
  or the whole path when that text is empty.\<close>

fun last_segment :: "string \<Rightarrow> string \<Rightarrow> string" where
  "last_segment acc [] = acc"
| "last_segment acc (c # cs) = (if c = CHR ''/'' then last_segment [] cs else last_segment (acc @ [c]) cs)"

definition file_name :: "string \<Rightarrow> string" where
  "file_name filePath = (let n = last_segment [] filePath in if n = [] then filePath else n)"

text \<open>\<^verbatim>\<open>options?.f\<close> on an optional options object.\<close>

definition opt_field :: "('o \<Rightarrow> 'v option) \<Rightarrow> 'o option \<Rightarrow> 'v option" where
  "opt_field f options = (case options of None \<Rightarrow> None | Some opts \<Rightarrow> f opts)"

text \<open>The argument of \<^verbatim>\<open>this.uploadFile\<close> for one path:
  \<^verbatim>\<open>{ filePath, encrypt: options?.encrypt, accessConditions: options?.accessConditions, tags: options?.tags }\<close>.\<close>

definition upload_params_of :: "BatchUploadOptions option \<Rightarrow> string \<Rightarrow> upload_params" where
  "upload_params_of options filePath =
     \<lparr>up_filePath = filePath, up_encrypt = opt_field encrypt options,
      up_accessConditions = opt_field accessConditions options,
      up_tags = opt_field tags options\<rparr>"

text \<open>The argument of \<^verbatim>\<open>this.fetchFile\<close> for one CID; the output path is
  \<^verbatim>\<open>options?.outputDir ? `${options.outputDir}/${cid}` : undefined\<close>.\<close>

definition fetch_params_of :: "BatchDownloadOptions option \<Rightarrow> string \<Rightarrow> fetch_params" where
  "fetch_params_of options c =
     \<lparr>fp_cid = c,
      fp_outputPath = (case opt_field outputDir options of
                         None \<Rightarrow> None
                       | Some d \<Rightarrow> if d = [] then None else Some (d @ ''/'' @ c)),
      fp_decrypt = opt_field decrypt options\<rparr>"

text \<open>
  The \<^verbatim>\<open>for (const filePath of filePaths)\<close> loop of \<^verbatim>\<open>batchUploadFiles\<close>, with
  the \<^verbatim>\<open>results\<close> array so far as an accumulator. A \<^verbatim>\<open>throw error\<close> out of the
  \<^verbatim>\<open>catch\<close> leaves the loop with \<open>Inl\<close>: the results collected so far are lost
  to the caller.
\<close>

fun upload_loop ::
  "env \<Rightarrow> BatchUploadOptions option \<Rightarrow> mock_state \<Rightarrow> string list \<Rightarrow> FileInfo BatchFileResult list
     \<Rightarrow> (js_error + FileInfo BatchFileResult list) \<times> mock_state" where
  "upload_loop e options s [] rs = (Inr rs, s)"
| "upload_loop e options s (filePath # rest) rs =
     (let itemStartTime = now s in
      case uploadFile e s (upload_params_of options filePath) of
        (Inr uploadResult, s') \<Rightarrow>
          upload_loop e options s' rest
            (rs @ [\<lparr>item_id = filePath, success = True,
                     data = Some \<lparr>hash = ur_cid uploadResult, name = file_name filePath,
                                  fi_size = ur_size uploadResult,
                                  fi_encrypted = ur_encrypted uploadResult,
                                  mimeType = ''application/octet-stream'',
                                  fi_uploadedAt = ur_uploadedAt uploadResult\<rparr>,
                     error = None, duration = now s' - itemStartTime, retries = 0\<rparr>])
      | (Inl err, s') \<Rightarrow>
          if \<not> or_false (opt_field continueOnError options) then (Inl err, s')
          else upload_loop e options s' rest
                 (rs @ [\<lparr>item_id = filePath, success = False, data = None,
                          error = Some (message err),
                          duration = now s' - itemStartTime, retries = 0\<rparr>]))"

text \<open>The part of both batch methods after the loop; \<open>n\<close> is \<^verbatim>\<open>filePaths.length\<close>
  (or \<^verbatim>\<open>cids.length\<close>).\<close>

definition mock_summary ::
  "nat \<Rightarrow> int \<Rightarrow> 'a BatchFileResult list \<Rightarrow> 'a BatchOperationResult" where
  "mock_summary n totalDur rs =
     (let nsucc = length (filter (\<lambda>r. success r) rs);
          nfail = length (filter (\<lambda>r. \<not> success r) rs)
      in \<lparr>total = n, successful = nsucc, failed = nfail,
          successRate = (if n > 0 then js_times (js_div (of_nat nsucc) (of_nat n)) 100 else Num 0),
          totalDuration = totalDur,
          averageDuration =
            (if length rs > 0 then js_div (of_int totalDur) (of_nat (length rs)) else Num 0),
          results = rs\<rparr>)"

definition batchUploadFiles ::
  "env \<Rightarrow> mock_state \<Rightarrow> string list \<Rightarrow> BatchUploadOptions option
     \<Rightarrow> (js_error + FileInfo BatchOperationResult) \<times> mock_state" where
  "batchUploadFiles e s filePaths options =
     (let startTime = now s in
      case upload_loop e options s filePaths [] of
        (Inl err, s') \<Rightarrow> (Inl err, s')
      | (Inr rs, s') \<Rightarrow> (Inr (mock_summary (length filePaths) (now s' - startTime) rs), s'))"

fun download_loop ::
  "env \<Rightarrow> BatchDownloadOptions option \<Rightarrow> mock_state \<Rightarrow> string list
     \<Rightarrow> BatchDownloadFileResult BatchFileResult list
     \<Rightarrow> (js_error + BatchDownloadFileResult BatchFileResult list) \<times> mock_state" where
  "download_loop e options s [] rs = (Inr rs, s)"
| "download_loop e options s (cid # rest) rs =
     (let itemStartTime = now s in
      case fetchFile e s (fetch_params_of options cid) of
        (Inr downloadResult, s') \<Rightarrow>
          download_loop e options s' rest
            (rs @ [\<lparr>item_id = cid, success = True,
                     data = Some \<lparr>dr_cid = dl_cid downloadResult,
                                  dr_filePath = dl_filePath downloadResult,
                                  dr_size = dl_size downloadResult,
                                  decrypted = dl_decrypted downloadResult\<rparr>,
                     error = None, duration = now s' - itemStartTime, retries = 0\<rparr>])
      | (Inl err, s') \<Rightarrow>
          if \<not> or_false (opt_field d_continueOnError options) then (Inl err, s')
          else download_loop e options s' rest
                 (rs @ [\<lparr>item_id = cid, success = False, data = None,
                          error = Some (message err),
                          duration = now s' - itemStartTime, retries = 0\<rparr>]))"

definition batchDownloadFiles ::
  "env \<Rightarrow> mock_state \<Rightarrow> string list \<Rightarrow> BatchDownloadOptions option
     \<Rightarrow> (js_error + BatchDownloadFileResult BatchOperationResult) \<times> mock_state" where
  "batchDownloadFiles e s cids options =
     (let startTime = now s in
      case download_loop e options s cids [] of
        (Inl err, s') \<Rightarrow> (Inl err, s')
      | (Inr rs, s') \<Rightarrow> (Inr (mock_summary (length cids) (now s' - startTime) rs), s'))"

section \<open>The batch tools (apps/mcp-server/src/tools)\<close>

text \<open>
  The tools receive \<^verbatim>\<open>args: Record<string, unknown>\<close>, so an argument is any
  JavaScript value. \<open>filePaths\<close> and \<open>cids\<close> are kept as their declared type
  \<^verbatim>\<open>string[]\<close> (\<open>None\<close>: absent or not an array).
\<close>

datatype js_value =
  Undefined | Null | Number js_number | String string | Boolean bool
  | Array "js_value list" | Object

fun truthy :: "js_value \<Rightarrow> bool" where
  "truthy Undefined = False"
| "truthy Null = False"
| "truthy (Number (Num r)) = (r \<noteq> 0)"
| "truthy (Number NaN) = False"
| "truthy (Number _) = True"
| "truthy (String s) = (s \<noteq> [])"
| "truthy (Boolean b) = b"
| "truthy (Array _) = True"
| "truthy Object = True"

text \<open>\<^verbatim>\<open>x < c\<close> and \<^verbatim>\<open>x > c\<close> for a number \<open>x\<close> and a finite constant: every
  comparison with \<^verbatim>\<open>NaN\<close> is false.\<close>

fun js_less :: "js_number \<Rightarrow> rat \<Rightarrow> bool" where
  "js_less (Num r) c = (r < c)"
| "js_less NaN c = False"
| "js_less PosInfinity c = False"
| "js_less NegInfinity c = True"

fun js_greater :: "js_number \<Rightarrow> rat \<Rightarrow> bool" where
  "js_greater (Num r) c = (r > c)"
| "js_greater NaN c = False"
| "js_greater PosInfinity c = True"
| "js_greater NegInfinity c = False"

text \<open>\<^verbatim>\<open>a || b\<close> and \<^verbatim>\<open>a ?? b\<close>.\<close>

definition js_or :: "js_value \<Rightarrow> js_value \<Rightarrow> js_value" where
  "js_or a b = (if truthy a then a else b)"

definition nullish :: "js_value \<Rightarrow> js_value \<Rightarrow> js_value" where
  "nullish a b = (if a = Undefined \<or> a = Null then b else a)"

text \<open>The concurrency check both \<^verbatim>\<open>validateParams\<close> share.\<close>

definition validate_concurrency :: "js_value \<Rightarrow> string option" where
  "validate_concurrency c =
     (if c \<noteq> Undefined then
        (case c of
           Number n \<Rightarrow>
             if js_less n 1 \<or> js_greater n 10
             then Some ''concurrency must be a number between 1 and 10'' else None
         | _ \<Rightarrow> Some ''concurrency must be a number between 1 and 10'')
      else None)"

text \<open>Decimal text of a number, as a template literal prints it.\<close>

fun show_nat :: "nat \<Rightarrow> string" where
  "show_nat n =
     (if n < 10 then [char_of (48 + n)] else show_nat (n div 10) @ [char_of (48 + n mod 10)])"

declare show_nat.simps [simp del]

text \<open>\<^verbatim>\<open>xs.join(", ")\<close>.\<close>

fun join :: "string list \<Rightarrow> string" where
  "join [] = []"
| "join [x] = x"
| "join (x # y # ys) = x @ '', '' @ join (y # ys)"

text \<open>\<^verbatim>\<open>xs.slice(0, k).join(", ")\<close> followed by \<^verbatim>\<open>and N more\<close> when more than
  \<open>k\<close> entries exist.\<close>

definition list_some :: "nat \<Rightarrow> string list \<Rightarrow> string" where
  "list_some k xs =
     join (take k xs) @ (if length xs > k then '' and '' @ show_nat (length xs - k) @ '' more'' else [])"

record BatchUploadParams =
  p_filePaths :: "string list option"
  p_concurrency :: js_value
  p_encrypt :: js_value
  p_accessConditions :: js_value
  p_tags :: js_value
  p_continueOnError :: js_value

text \<open>The loop over \<^verbatim>\<open>params.filePaths\<close>: \<open>stat p\<close> is \<open>None\<close> when
  \<^verbatim>\<open>fs.stat\<close> throws, else whether the path is a file and its size.
  \<^verbatim>\<open>Math.round(size / 1024 / 1024)\<close> is \<open>(size + 524288) div 1048576\<close>.\<close>

fun check_files ::
  "(string \<Rightarrow> (bool \<times> nat) option) \<Rightarrow> string list \<Rightarrow> string list \<Rightarrow> string list
     \<Rightarrow> string + (string list \<times> string list)" where
  "check_files stat [] invalidFiles oversizedFiles = Inr (invalidFiles, oversizedFiles)"
| "check_files stat (filePath # rest) invalidFiles oversizedFiles =
     (if length filePath = 0 then Inl ''Each filePath must be a non-empty string''
      else case stat filePath of
        None \<Rightarrow> check_files stat rest (invalidFiles @ [filePath]) oversizedFiles
      | Some (isFile, sz) \<Rightarrow>
          if \<not> isFile then check_files stat rest (invalidFiles @ [filePath]) oversizedFiles
          else if sz > 100 * 1024 * 1024
          then check_files stat rest invalidFiles
                 (oversizedFiles @ [filePath @ '' ('' @ show_nat ((sz + 524288) div 1048576) @ ''MB)''])
          else check_files stat rest invalidFiles oversizedFiles)"

text \<open>The loop over \<^verbatim>\<open>params.tags\<close>.\<close>

fun check_tags :: "nat \<Rightarrow> js_value list \<Rightarrow> string option" where
  "check_tags i [] = None"
| "check_tags i (String t # rest) = check_tags (Suc i) rest"
| "check_tags i (_ # rest) = Some (''tags['' @ show_nat i @ ''] must be a string'')"

text \<open>The checks of \<^verbatim>\<open>encrypt\<close>, \<^verbatim>\<open>accessConditions\<close> and \<^verbatim>\<open>tags\<close>, in the
  order of the source.\<close>

definition validate_encrypt :: "js_value \<Rightarrow> string option" where
  "validate_encrypt enc =
     (if enc \<noteq> Undefined \<and> (case enc of Boolean _ \<Rightarrow> False | _ \<Rightarrow> True)
      then Some ''encrypt must be a boolean'' else None)"

definition validate_accessConditions :: "js_value \<Rightarrow> js_value \<Rightarrow> string option" where
  "validate_accessConditions acs enc =
     (if truthy acs then
        (case acs of
           Array xs \<Rightarrow>
             if length xs > 0 \<and> \<not> truthy enc
             then Some ''Access conditions require encryption to be enabled'' else None
         | _ \<Rightarrow> Some ''accessConditions must be an array'')
      else None)"

definition validate_tags :: "js_value \<Rightarrow> string option" where
  "validate_tags ts =
     (if truthy ts then
        (case ts of Array xs \<Rightarrow> check_tags 0 xs | _ \<Rightarrow> Some ''tags must be an array'')
      else None)"

text \<open>The first of a sequence of checks that reports an error.\<close>

fun first_error :: "string option list \<Rightarrow> string option" where
  "first_error [] = None"
| "first_error (None # rest) = first_error rest"
| "first_error (Some msg # rest) = Some msg"

definition upload_validateParams ::
  "(string \<Rightarrow> (bool \<times> nat) option) \<Rightarrow> BatchUploadParams \<Rightarrow> string option" where
  "upload_validateParams stat params =
     (case p_filePaths params of
        None \<Rightarrow> Some ''filePaths is required and must be an array''
      | Some filePaths \<Rightarrow>
          if length filePaths = 0 then Some ''filePaths cannot be empty''
          else if length filePaths > 100 then Some ''filePaths cannot exceed 100 files per batch''
          else (case check_files stat filePaths [] [] of
            Inl msg \<Rightarrow> Some msg
          | Inr (invalidFiles, oversizedFiles) \<Rightarrow>
              if length invalidFiles > 0
              then Some (''Cannot access files: '' @ list_some 5 invalidFiles)
              else if length oversizedFiles > 0
              then Some (''Files exceed 100MB limit: '' @ list_some 3 oversizedFiles)
              else first_error
                     [validate_concurrency (p_concurrency params),
                      validate_encrypt (p_encrypt params),
                      validate_accessConditions (p_accessConditions params) (p_encrypt params),
                      validate_tags (p_tags params)]))"

text \<open>The options object the tool hands to \<^verbatim>\<open>service.batchUploadFiles\<close>.\<close>

record upload_call =
  c_filePaths :: "string list"
  c_concurrency :: js_value
  c_encrypt :: js_value
  c_accessConditions :: js_value
  c_tags :: js_value
  c_continueOnError :: js_value

record 'd tool_result =
  tr_success :: bool
  tr_error :: "string option"
  tr_data :: "'d option"

definition tool_failure :: "string \<Rightarrow> 'd tool_result" where
  "tool_failure msg = \<lparr>tr_success = False, tr_error = Some msg, tr_data = None\<rparr>"

text \<open>The options the upload tool builds from its parameters:
  \<^verbatim>\<open>concurrency: params.concurrency || 3\<close> and
  \<^verbatim>\<open>continueOnError: params.continueOnError ?? true\<close>, the rest as given.\<close>

definition upload_call_of :: "BatchUploadParams \<Rightarrow> upload_call" where
  "upload_call_of params =
     \<lparr>c_filePaths = (case p_filePaths params of None \<Rightarrow> [] | Some filePaths \<Rightarrow> filePaths),
      c_concurrency = js_or (p_concurrency params) (Number (Num 3)),
      c_encrypt = p_encrypt params,
      c_accessConditions = p_accessConditions params,
      c_tags = p_tags params,
      c_continueOnError = nullish (p_continueOnError params) (Boolean True)\<rparr>"

text \<open>What a tool answers once the service has returned or thrown: an error caught by
  the \<^verbatim>\<open>catch\<close> becomes a failure with the given prefix, a result succeeds when no
  item failed.\<close>

definition respond ::
  "string \<Rightarrow> (js_error + 'd BatchOperationResult) \<times> 's \<Rightarrow> ('d BatchOperationResult) tool_result \<times> 's" where
  "respond prefix outcome =
     (case outcome of
        (Inl err, s') \<Rightarrow> (tool_failure (prefix @ message err), s')
      | (Inr result, s') \<Rightarrow>
          (\<lparr>tr_success = (failed result = 0), tr_error = None, tr_data = Some result\<rparr>, s'))"

text \<open>
  \<^verbatim>\<open>LighthouseBatchUploadTool.execute\<close>. The service is a parameter (\<open>None\<close> when
  the implementation has no \<^verbatim>\<open>batchUploadFiles\<close>); it is a function of its own
  state \<open>'s\<close>. The response keeps the result the service returned; the
  \<^verbatim>\<open>executionTime\<close> and \<^verbatim>\<open>metadata\<close> fields and the logging are left out.
\<close>

definition upload_execute ::
  "(string \<Rightarrow> (bool \<times> nat) option)
     \<Rightarrow> ('s \<Rightarrow> upload_call \<Rightarrow> (js_error + FileInfo BatchOperationResult) \<times> 's) option
     \<Rightarrow> 's \<Rightarrow> BatchUploadParams \<Rightarrow> (FileInfo BatchOperationResult) tool_result \<times> 's" where
  "upload_execute stat service s params =
     (case upload_validateParams stat params of
        Some validationError \<Rightarrow> (tool_failure (''Invalid parameters: '' @ validationError), s)
      | None \<Rightarrow>
          (case service of
             None \<Rightarrow>
               (tool_failure ''Batch upload not available in current service implementation'', s)
           | Some service_batchUploadFiles \<Rightarrow>
               respond ''Batch upload failed: ''
                 (service_batchUploadFiles s (upload_call_of params))))"

text \<open>\<^verbatim>\<open>LighthouseBatchDownloadTool.isValidCID\<close>. The regular expressions are the
  character classes \<^verbatim>\<open>[a-zA-Z0-9]\<close> and the base58 alphabet
  \<^verbatim>\<open>[1-9A-HJ-NP-Za-km-z]\<close>.\<close>

definition in_range :: "char \<Rightarrow> char \<Rightarrow> char \<Rightarrow> bool" where
  "in_range lo hi c = ((of_char lo :: nat) \<le> of_char c \<and> (of_char c :: nat) \<le> of_char hi)"

definition alnum :: "char \<Rightarrow> bool" where
  "alnum c = (in_range CHR ''a'' CHR ''z'' c \<or> in_range CHR ''A'' CHR ''Z'' c
              \<or> in_range CHR ''0'' CHR ''9'' c)"

definition base58 :: "char \<Rightarrow> bool" where
  "base58 c = (in_range CHR ''1'' CHR ''9'' c \<or> in_range CHR ''A'' CHR ''H'' c
               \<or> in_range CHR ''J'' CHR ''N'' c \<or> in_range CHR ''P'' CHR ''Z'' c
               \<or> in_range CHR ''a'' CHR ''k'' c \<or> in_range CHR ''m'' CHR ''z'' c)"

definition startsWith :: "string \<Rightarrow> string \<Rightarrow> bool" where
  "startsWith s pre = (take (length pre) s = pre)"

definition isValidCID :: "string \<Rightarrow> bool" where
  "isValidCID cid =
     (if length cid = 0 then False
      else if startsWith cid ''Qm'' \<and> length cid = 46 then list_all base58 (drop 2 cid)
      else if startsWith cid ''baf'' \<and> length cid \<ge> 59 then list_all alnum cid
      else if startsWith cid ''QmTest'' \<or> startsWith cid ''QmNonExist''
      then length cid \<ge> 32 \<and> list_all alnum cid
      else if startsWith cid ''Qm'' \<and> length cid \<ge> 46 then list_all alnum cid
      else False)"

record BatchDownloadParams =
  p_cids :: "string list option"
  p_outputDir :: js_value
  pd_concurrency :: js_value
  p_decrypt :: js_value
  pd_continueOnError :: js_value

text \<open>What \<^verbatim>\<open>validateParams\<close> asks of the file system: whether
  \<^verbatim>\<open>fs.access(dir, W_OK)\<close> succeeds and, if not, whether \<^verbatim>\<open>fs.mkdir\<close> does.\<close>

record dir_env =
  access_ok :: "string \<Rightarrow> bool"
  mkdir_ok :: "string \<Rightarrow> bool"

definition validate_outputDir :: "dir_env \<Rightarrow> js_value \<Rightarrow> string option" where
  "validate_outputDir fs dir =
     (if truthy dir then
        (case dir of
           String d \<Rightarrow>
             if access_ok fs d then None
             else if mkdir_ok fs d then None
             else Some (''Cannot write to output directory: '' @ d)
         | _ \<Rightarrow> Some ''outputDir must be a string'')
      else None)"

definition validate_decrypt :: "js_value \<Rightarrow> string option" where
  "validate_decrypt dec =
     (if dec \<noteq> Undefined \<and> (case dec of Boolean _ \<Rightarrow> False | _ \<Rightarrow> True)
      then Some ''decrypt must be a boolean'' else None)"

definition download_validateParams :: "dir_env \<Rightarrow> BatchDownloadParams \<Rightarrow> string option" where
  "download_validateParams fs params =
     (case p_cids params of
        None \<Rightarrow> Some ''cids is required and must be an array''
      | Some cids \<Rightarrow>
          if length cids = 0 then Some ''cids cannot be empty''
          else if length cids > 100 then Some ''cids cannot exceed 100 files per batch''
          else
            let invalidCIDs = filter (\<lambda>cid. \<not> isValidCID cid) cids in
            if length invalidCIDs > 0
            then Some (''Invalid CID format: '' @ list_some 5 invalidCIDs)
            else first_error
                   [validate_outputDir fs (p_outputDir params),
                    validate_concurrency (pd_concurrency params),
                    validate_decrypt (p_decrypt params)])"

record download_call =
  c_cids :: "string list"
  cd_concurrency :: js_value
  c_outputDir :: js_value
  c_decrypt :: js_value
  cd_continueOnError :: js_value

definition download_call_of :: "BatchDownloadParams \<Rightarrow> download_call" where
  "download_call_of params =
     \<lparr>c_cids = (case p_cids params of None \<Rightarrow> [] | Some cids \<Rightarrow> cids),
      cd_concurrency = js_or (pd_concurrency params) (Number (Num 3)),
      c_outputDir = p_outputDir params,
      c_decrypt = p_decrypt params,
      cd_continueOnError = nullish (pd_continueOnError params) (Boolean True)\<rparr>"

text \<open>\<^verbatim>\<open>LighthouseBatchDownloadTool.execute\<close>, modelled as the upload tool's.\<close>

definition download_execute ::
  "dir_env
     \<Rightarrow> ('s \<Rightarrow> download_call
          \<Rightarrow> (js_error + BatchDownloadFileResult BatchOperationResult) \<times> 's) option
     \<Rightarrow> 's \<Rightarrow> BatchDownloadParams
     \<Rightarrow> (BatchDownloadFileResult BatchOperationResult) tool_result \<times> 's" where
  "download_execute fs service s params =
     (case download_validateParams fs params of
        Some validationError \<Rightarrow> (tool_failure (''Invalid parameters: '' @ validationError), s)
      | None \<Rightarrow>
          (case service of
             None \<Rightarrow>
               (tool_failure ''Batch download not available in current service implementation'', s)
           | Some service_batchDownloadFiles \<Rightarrow>
               respond ''Batch download failed: ''
                 (service_batchDownloadFiles s (download_call_of params))))"

section \<open>LighthouseAISDK (packages/sdk-wrapper/src)\<close>

text \<open>
  The SDK class is among the sources; the classes it imports (\<^verbatim>\<open>CircuitBreaker\<close>,
  \<^verbatim>\<open>ErrorHandler\<close>, \<^verbatim>\<open>RateLimiter\<close>, \<^verbatim>\<open>MemoryManager\<close>,
  \<^verbatim>\<open>BatchProcessor\<close>) are not. Each is either a parameter of the model or defined
  from the specification, and is marked so.
\<close>

subsection \<open>CircuitBreaker\<close>

datatype circuit_state = CLOSED | OPEN | HALF_OPEN

record cb_config =
  failureThreshold :: nat
  resetTimeout :: int

record circuit_breaker =
  state :: circuit_state
  failureCount :: nat
  successCount :: nat
  openedAt :: int
  lastFailureTime :: "int option"

text \<open>How the breaker answered a call: rejected, passed through a closed circuit, or
  let through as the probe of a half-open one.\<close>

datatype admission = Rejected | Passed | Probe

text \<open>Modelled from the spec: \<^verbatim>\<open>CircuitBreaker\<close> (\<^verbatim>\<open>./errors/CircuitBreaker\<close>) is
  not among the sources. The decision taken when a call arrives at time \<open>t\<close>: CLOSED
  lets it pass; OPEN rejects it until \<open>resetTimeout\<close> has elapsed since \<open>openedAt\<close>,
  then the next call moves the breaker to HALF_OPEN and is the probe; HALF_OPEN (a probe
  is in flight) rejects.\<close>

definition cb_admit :: "cb_config \<Rightarrow> int \<Rightarrow> circuit_breaker \<Rightarrow> admission \<times> circuit_breaker" where
  "cb_admit cfg t b =
     (case state b of
        CLOSED \<Rightarrow> (Passed, b)
      | OPEN \<Rightarrow>
          if t - openedAt b \<ge> resetTimeout cfg then (Probe, b\<lparr>state := HALF_OPEN\<rparr>)
          else (Rejected, b)
      | HALF_OPEN \<Rightarrow> (Rejected, b))"

text \<open>Modelled from the spec: what \<^verbatim>\<open>CircuitBreaker\<close> (not among the sources)
  records when an admitted call ends at time \<open>t\<close>. In CLOSED a failure increments the
  counter of consecutive failures and opens the circuit when it reaches
  \<open>failureThreshold\<close>, a success ends the run of failures. The probe's success closes
  the circuit and resets the counters, its failure re-opens it with a new \<open>openedAt\<close>.
  A call that passed while the circuit was closed and ends after it opened changes
  nothing.\<close>

definition cb_record ::
  "cb_config \<Rightarrow> admission \<Rightarrow> bool \<Rightarrow> int \<Rightarrow> circuit_breaker \<Rightarrow> circuit_breaker" where
  "cb_record cfg a ok t b =
     (case a of
        Rejected \<Rightarrow> b
      | Probe \<Rightarrow>
          if ok then b\<lparr>state := CLOSED, failureCount := 0, successCount := 0\<rparr>
          else b\<lparr>state := OPEN, openedAt := t, lastFailureTime := Some t\<rparr>
      | Passed \<Rightarrow>
          if state b \<noteq> CLOSED then b
          else if ok then b\<lparr>failureCount := 0, successCount := successCount b + 1\<rparr>
          else if failureCount b + 1 \<ge> failureThreshold cfg
          then b\<lparr>state := OPEN, failureCount := failureCount b + 1, successCount := 0,
                  openedAt := t, lastFailureTime := Some t\<rparr>
          else b\<lparr>failureCount := failureCount b + 1, successCount := 0,
                  lastFailureTime := Some t\<rparr>)"

subsection \<open>The state of an SDK instance\<close>

text \<open>What lies outside the SDK object: the clock \<^verbatim>\<open>Date.now()\<close> reads and the
  remote service, file system and rate limiter, of any type \<open>'w\<close>.\<close>

record 'w outside =
  clock :: int
  remote :: 'w

datatype sdk_event =
  BatchStart string nat js_number
  | BatchDownloadStart string nat js_number string
  | Backpressure string bool
  | BatchProgress string int nat int
  | UserProgress int nat int
  | BatchComplete string
  | BatchError string string
  | MemoryBackpressureStart
  | MemoryBackpressureEnd
  | MemoryCleanupNeeded
  | CircuitBlocked

text \<open>Modelled from the spec: the state of \<^verbatim>\<open>MemoryManager\<close> (\<^verbatim>\<open>./memory/MemoryManager\<close>,
  not among the sources): a map from operation id to reserved bytes, kept as a list of
  pairs with distinct ids, and the backpressure flag.\<close>

record memory_manager =
  allocations :: "(string \<times> nat) list"
  underBackpressure :: bool

record 'w sdk =
  breaker :: circuit_breaker
  attempts :: nat
  memory :: memory_manager
  emitted :: "sdk_event list"
  outside :: "'w outside"

definition emit :: "sdk_event \<Rightarrow> 'w sdk \<Rightarrow> 'w sdk" where
  "emit ev s = s\<lparr>emitted := emitted s @ [ev]\<rparr>"

definition is_ok :: "'e + 'r \<Rightarrow> bool" where
  "is_ok res = (case res of Inl _ \<Rightarrow> False | Inr _ \<Rightarrow> True)"

text \<open>Modelled from the spec: \<^verbatim>\<open>CircuitBreaker.execute(fn, label)\<close> (not among the
  sources), for a call that runs to its end before the next one arrives: a rejected
  call fails with a circuit-open error and \<open>fn\<close> is not invoked; an admitted one runs
  \<open>fn\<close> and its outcome is recorded at the time it ends. The SDK forwards the
  \<^verbatim>\<open>circuit:blocked\<close> event.\<close>

definition cb_execute ::
  "cb_config \<Rightarrow> ('w sdk \<Rightarrow> (js_error + 'r) \<times> 'w sdk) \<Rightarrow> 'w sdk \<Rightarrow> (js_error + 'r) \<times> 'w sdk" where
  "cb_execute cfg fn s =
     (case cb_admit cfg (clock (outside s)) (breaker s) of
        (Rejected, b) \<Rightarrow> (Inl (Error ''Circuit breaker is open''), emit CircuitBlocked s)
      | (a, b) \<Rightarrow>
          (case fn (s\<lparr>breaker := b\<rparr>) of
             (res, s') \<Rightarrow>
               (res, s'\<lparr>breaker := cb_record cfg a (is_ok res) (clock (outside s')) (breaker s')\<rparr>)))"

subsection \<open>ErrorHandler\<close>

record retry_config =
  r_maxRetries :: nat
  baseDelay :: int
  maxDelay :: int
  retryable :: "js_error \<Rightarrow> bool"

definition sleep :: "int \<Rightarrow> 'w outside \<Rightarrow> 'w outside" where
  "sleep d w = w\<lparr>clock := clock w + d\<rparr>"

text \<open>Modelled from the spec: \<^verbatim>\<open>ErrorHandler.executeWithRetry(fn, label)\<close>
  (\<^verbatim>\<open>./errors/ErrorHandler\<close>, not among the sources). \<open>attempt\<close> counts the attempts
  made so far, \<open>left\<close> the retries still allowed. A retryable error is retried after
  a delay of \<open>baseDelay * 2 ^ attempt\<close> capped at \<open>maxDelay\<close>; a fatal error, or a
  retryable one when no retry is left, is surfaced. Every attempt is counted in the
  handler's metrics. The handler is constructed from \<^verbatim>\<open>maxRetries\<close> and
  \<^verbatim>\<open>timeout\<close> alone, so it holds no reference to the SDK's circuit breaker.\<close>

fun retry_from ::
  "retry_config \<Rightarrow> ('w outside \<Rightarrow> (js_error + 'r) \<times> 'w outside) \<Rightarrow> nat \<Rightarrow> nat \<Rightarrow> 'w sdk
     \<Rightarrow> (js_error + 'r) \<times> 'w sdk" where
  "retry_from cfg fn attempt left s =
     (case fn (outside s) of
        (Inr v, w) \<Rightarrow> (Inr v, s\<lparr>attempts := attempts s + 1, outside := w\<rparr>)
      | (Inl err, w) \<Rightarrow>
          (case left of
             0 \<Rightarrow> (Inl err, s\<lparr>attempts := attempts s + 1, outside := w\<rparr>)
           | Suc k \<Rightarrow>
               if retryable cfg err
               then retry_from cfg fn (Suc attempt) k
                      (s\<lparr>attempts := attempts s + 1,
                         outside := sleep (min (maxDelay cfg) (baseDelay cfg * 2 ^ attempt)) w\<rparr>)
               else (Inl err, s\<lparr>attempts := attempts s + 1, outside := w\<rparr>)))"

definition executeWithRetry ::
  "retry_config \<Rightarrow> ('w outside \<Rightarrow> (js_error + 'r) \<times> 'w outside) \<Rightarrow> 'w sdk
     \<Rightarrow> (js_error + 'r) \<times> 'w sdk" where
  "executeWithRetry cfg fn s = retry_from cfg fn 0 (r_maxRetries cfg) s"

subsection \<open>executeWithRateLimit and uploadFile\<close>

text \<open>
  \<^verbatim>\<open>await this.rateLimiter.acquire(); return this.circuitBreaker.execute(operation, operationName)\<close>.
  \<^verbatim>\<open>RateLimiter\<close> is not among the sources: \<open>grant\<close> is a parameter that acts on
  the outside (where the limiter's tokens are kept) and gives \<open>None\<close> when no token is
  ever granted, in which case the operation never starts and the call does not return.
\<close>

definition executeWithRateLimit ::
  "cb_config \<Rightarrow> ('w outside \<Rightarrow> 'w outside option) \<Rightarrow> ('w sdk \<Rightarrow> (js_error + 'r) \<times> 'w sdk)
     \<Rightarrow> 'w sdk \<Rightarrow> ((js_error + 'r) \<times> 'w sdk) option" where
  "executeWithRateLimit cfg grant operation s =
     (case grant (outside s) of
        None \<Rightarrow> None
      | Some w \<Rightarrow> Some (cb_execute cfg operation (s\<lparr>outside := w\<rparr>)))"

text \<open>
  \<^verbatim>\<open>LighthouseAISDK.uploadFile\<close>:
  \<^verbatim>\<open>this.executeWithRateLimit(async () => this.errorHandler.executeWithRetry(async () => {...}, "upload"), "uploadFile")\<close>.
  The innermost function, one upload attempt against the remote service, is the
  parameter \<open>attempt\<close>.
\<close>

definition sdk_uploadFile ::
  "cb_config \<Rightarrow> retry_config \<Rightarrow> ('w outside \<Rightarrow> 'w outside option)
     \<Rightarrow> ('w outside \<Rightarrow> (js_error + 'r) \<times> 'w outside)
     \<Rightarrow> 'w sdk \<Rightarrow> ((js_error + 'r) \<times> 'w sdk) option" where
  "sdk_uploadFile cfg rcfg grant attempt s =
     executeWithRateLimit cfg grant (\<lambda>s1. executeWithRetry rcfg attempt s1) s"

text \<open>\<^verbatim>\<open>LighthouseAISDK.downloadFile\<close> has the same nesting; its attempt returns the
  path written.\<close>

definition sdk_downloadFile ::
  "cb_config \<Rightarrow> retry_config \<Rightarrow> ('w outside \<Rightarrow> 'w outside option)
     \<Rightarrow> ('w outside \<Rightarrow> (js_error + string) \<times> 'w outside)
     \<Rightarrow> 'w sdk \<Rightarrow> ((js_error + string) \<times> 'w sdk) option" where
  "sdk_downloadFile cfg rcfg grant attempt s =
     executeWithRateLimit cfg grant (\<lambda>s1. executeWithRetry rcfg attempt s1) s"

text \<open>
  The nesting the specification describes for the retry executor, for comparison: the
  retry loop is outermost and each attempt is a call of its own through the circuit
  breaker.
\<close>

fun retry_through_breaker ::
  "cb_config \<Rightarrow> retry_config \<Rightarrow> ('w outside \<Rightarrow> (js_error + 'r) \<times> 'w outside) \<Rightarrow> nat \<Rightarrow> nat
     \<Rightarrow> 'w sdk \<Rightarrow> (js_error + 'r) \<times> 'w sdk" where
  "retry_through_breaker cfg rcfg fn attempt left s =
     (case cb_execute cfg
             (\<lambda>s1. case fn (outside s1) of
                      (res, w) \<Rightarrow> (res, s1\<lparr>attempts := attempts s1 + 1, outside := w\<rparr>)) s of
        (Inr v, s') \<Rightarrow> (Inr v, s')
      | (Inl err, s') \<Rightarrow>
          (case left of
             0 \<Rightarrow> (Inl err, s')
           | Suc k \<Rightarrow>
               if retryable rcfg err
               then retry_through_breaker cfg rcfg fn (Suc attempt) k
                      (s'\<lparr>outside := sleep (min (maxDelay rcfg) (baseDelay rcfg * 2 ^ attempt))
                                         (outside s')\<rparr>)
               else (Inl err, s')))"

definition spec_uploadFile ::
  "cb_config \<Rightarrow> retry_config \<Rightarrow> ('w outside \<Rightarrow> 'w outside option)
     \<Rightarrow> ('w outside \<Rightarrow> (js_error + 'r) \<times> 'w outside)
     \<Rightarrow> 'w sdk \<Rightarrow> ((js_error + 'r) \<times> 'w sdk) option" where
  "spec_uploadFile cfg rcfg grant attempt s =
     (case grant (outside s) of
        None \<Rightarrow> None
      | Some w \<Rightarrow> Some (retry_through_breaker cfg rcfg attempt 0 (r_maxRetries rcfg) (s\<lparr>outside := w\<rparr>)))"

subsection \<open>MemoryManager\<close>

record mm_config =
  maxMemory :: nat
  backpressureThreshold :: rat
  cleanupThreshold :: rat

text \<open>The configuration the SDK's constructor passes.\<close>

definition sdk_memory_config :: mm_config where
  "sdk_memory_config =
     \<lparr>maxMemory = 512 * 1024 * 1024, backpressureThreshold = 8 / 10, cleanupThreshold = 9 / 10\<rparr>"

definition totalReserved :: "memory_manager \<Rightarrow> nat" where
  "totalReserved m = sum_list (map snd (allocations m))"

fun js_geq :: "js_number \<Rightarrow> rat \<Rightarrow> bool" where
  "js_geq (Num r) c = (r \<ge> c)"
| "js_geq NaN c = False"
| "js_geq PosInfinity c = True"
| "js_geq NegInfinity c = False"

definition usage_ratio :: "mm_config \<Rightarrow> memory_manager \<Rightarrow> js_number" where
  "usage_ratio cfg m = js_div (of_nat (totalReserved m)) (of_nat (maxMemory cfg))"

text \<open>Setting and deleting a key of the map.\<close>

fun put :: "string \<Rightarrow> nat \<Rightarrow> (string \<times> nat) list \<Rightarrow> (string \<times> nat) list" where
  "put k v [] = [(k, v)]"
| "put k v ((k', v') # rest) = (if k' = k then (k, v) # rest else (k', v') # put k v rest)"

definition remove :: "string \<Rightarrow> (string \<times> nat) list \<Rightarrow> (string \<times> nat) list" where
  "remove k xs = filter (\<lambda>kv. fst kv \<noteq> k) xs"

text \<open>Modelled from the spec: \<^verbatim>\<open>MemoryManager.track(id, sizeBytes, meta)\<close> (not among
  the sources) records the reservation and recomputes the total; a ratio at or above
  \<open>backpressureThreshold\<close> sets the flag and emits \<^verbatim>\<open>backpressure:start\<close>, one at
  or above \<open>cleanupThreshold\<close> also emits \<^verbatim>\<open>cleanup:needed\<close>. The events are
  returned as the SDK forwards them.\<close>

definition track ::
  "mm_config \<Rightarrow> string \<Rightarrow> nat \<Rightarrow> memory_manager \<Rightarrow> memory_manager \<times> sdk_event list" where
  "track cfg k sz m =
     (let m1 = m\<lparr>allocations := put k sz (allocations m)\<rparr>;
          r = usage_ratio cfg m1
      in (if js_geq r (backpressureThreshold cfg) then m1\<lparr>underBackpressure := True\<rparr> else m1,
          (if js_geq r (backpressureThreshold cfg) then [MemoryBackpressureStart] else [])
          @ (if js_geq r (cleanupThreshold cfg) then [MemoryCleanupNeeded] else [])))"

text \<open>Modelled from the spec: \<^verbatim>\<open>MemoryManager.untrack(id)\<close> (not among the sources)
  removes the reservation and recomputes the total; when the ratio has dropped below
  \<open>backpressureThreshold\<close> the flag is cleared and \<^verbatim>\<open>backpressure:end\<close> emitted.
  Untracking an id that is not reserved removes nothing.\<close>

definition untrack ::
  "mm_config \<Rightarrow> string \<Rightarrow> memory_manager \<Rightarrow> memory_manager \<times> sdk_event list" where
  "untrack cfg k m =
     (let m1 = m\<lparr>allocations := remove k (allocations m)\<rparr>
      in if underBackpressure m1 \<and> \<not> js_geq (usage_ratio cfg m1) (backpressureThreshold cfg)
         then (m1\<lparr>underBackpressure := False\<rparr>, [MemoryBackpressureEnd])
         else (m1, []))"

text \<open>Modelled from the spec: \<^verbatim>\<open>MemoryManager.waitForRelief(timeoutMs)\<close> (not among
  the sources) suspends the caller until the flag is cleared or the timeout elapses and
  returns without error either way. It reserves and releases nothing; while one item
  waits alone nothing clears the flag, so the whole timeout passes.\<close>

definition waitForRelief :: "int \<Rightarrow> 'w sdk \<Rightarrow> 'w sdk" where
  "waitForRelief timeoutMs s = s\<lparr>outside := sleep timeoutMs (outside s)\<rparr>"

subsection \<open>batchUpload and batchDownload\<close>

record BatchUploadInput =
  filePath :: string
  fileName :: "string option"

record BatchDownloadInput =
  cid :: string
  outputFileName :: "string option"
  expectedSize :: "nat option"

text \<open>The head of the function handed to \<^verbatim>\<open>BatchProcessor\<close>, up to the
  \<^verbatim>\<open>try\<close>: the backpressure check, \<^verbatim>\<open>validateFile\<close> (a parameter reading the
  file system; \<open>Inl\<close> when it throws) and \<^verbatim>\<open>memoryManager.track\<close>. It returns the
  memory id under which the item is tracked.\<close>

definition backpressure_check :: "string \<Rightarrow> 'w sdk \<Rightarrow> 'w sdk" where
  "backpressure_check operationId s =
     (if underBackpressure (memory s)
      then emit (Backpressure operationId False)
             (waitForRelief 30000 (emit (Backpressure operationId True) s))
      else s)"

definition track_item :: "string \<Rightarrow> nat \<Rightarrow> 'w sdk \<Rightarrow> 'w sdk" where
  "track_item memoryId sz s =
     (case track sdk_memory_config memoryId sz (memory s) of
        (m, evs) \<Rightarrow> s\<lparr>memory := m, emitted := emitted s @ evs\<rparr>)"

definition untrack_item :: "string \<Rightarrow> 'w sdk \<Rightarrow> 'w sdk" where
  "untrack_item memoryId s =
     (case untrack sdk_memory_config memoryId (memory s) of
        (m, evs) \<Rightarrow> s\<lparr>memory := m, emitted := emitted s @ evs\<rparr>)"

definition upload_begin ::
  "('w \<Rightarrow> string \<Rightarrow> js_error + nat) \<Rightarrow> string \<Rightarrow> BatchUploadInput \<Rightarrow> 'w sdk
     \<Rightarrow> (js_error + string) \<times> 'w sdk" where
  "upload_begin validateFile operationId input s =
     (let s1 = backpressure_check operationId s in
      case validateFile (remote (outside s1)) (filePath input) of
        Inl err \<Rightarrow> (Inl err, s1)
      | Inr sz \<Rightarrow>
          let memoryId = ''upload_'' @ operationId @ ''_'' @ filePath input
          in (Inr memoryId, track_item memoryId sz s1))"

text \<open>The whole function handed to \<^verbatim>\<open>BatchProcessor\<close> by \<^verbatim>\<open>batchUpload\<close>: the
  \<^verbatim>\<open>try\<close> runs \<^verbatim>\<open>this.uploadFile\<close>, the \<^verbatim>\<open>finally\<close> untracks. \<open>attempt\<close> gives
  the upload attempt for a file.\<close>

definition upload_worker ::
  "cb_config \<Rightarrow> retry_config \<Rightarrow> ('w outside \<Rightarrow> 'w outside option)
     \<Rightarrow> ('w \<Rightarrow> string \<Rightarrow> js_error + nat)
     \<Rightarrow> (BatchUploadInput \<Rightarrow> 'w outside \<Rightarrow> (js_error + FileInfo) \<times> 'w outside)
     \<Rightarrow> string \<Rightarrow> BatchUploadInput \<Rightarrow> 'w sdk \<Rightarrow> ((js_error + FileInfo) \<times> 'w sdk) option" where
  "upload_worker cfg rcfg grant validateFile attempt operationId input s =
     (case upload_begin validateFile operationId input s of
        (Inl err, s1) \<Rightarrow> Some (Inl err, s1)
      | (Inr memoryId, s1) \<Rightarrow>
          (case sdk_uploadFile cfg rcfg grant (attempt input) s1 of
             None \<Rightarrow> None
           | Some (res, s2) \<Rightarrow> Some (res, untrack_item memoryId s2)))"

text \<open>The same for \<^verbatim>\<open>batchDownload\<close>: the expected size defaults to 10 MB, the
  \<^verbatim>\<open>try\<close> runs \<^verbatim>\<open>this.downloadFile\<close> and then \<^verbatim>\<open>fsPromises.stat\<close>, a
  parameter.\<close>

definition or_default :: "'v option \<Rightarrow> 'v \<Rightarrow> 'v" where
  "or_default a d = (case a of None \<Rightarrow> d | Some v \<Rightarrow> v)"

definition download_begin :: "string \<Rightarrow> BatchDownloadInput \<Rightarrow> 'w sdk \<Rightarrow> string \<times> 'w sdk" where
  "download_begin operationId input s =
     (let s1 = backpressure_check operationId s;
          expected = or_default (expectedSize input) (10 * 1024 * 1024);
          memoryId = ''download_'' @ operationId @ ''_'' @ cid input
      in (memoryId, track_item memoryId expected s1))"

definition download_worker ::
  "cb_config \<Rightarrow> retry_config \<Rightarrow> ('w outside \<Rightarrow> 'w outside option)
     \<Rightarrow> ('w \<Rightarrow> string \<Rightarrow> js_error + nat)
     \<Rightarrow> (BatchDownloadInput \<Rightarrow> string \<Rightarrow> 'w outside \<Rightarrow> (js_error + string) \<times> 'w outside)
     \<Rightarrow> string \<Rightarrow> string \<Rightarrow> bool option \<Rightarrow> BatchDownloadInput \<Rightarrow> 'w sdk
     \<Rightarrow> ((js_error + BatchDownloadFileResult) \<times> 'w sdk) option" where
  "download_worker cfg rcfg grant stat attempt operationId outDir dec input s =
     (case download_begin operationId input s of
        (memoryId, s1) \<Rightarrow>
          (let outputPath = outDir @ ''/'' @ or_default (outputFileName input) (''downloaded_'' @ cid input)
           in case sdk_downloadFile cfg rcfg grant (attempt input outputPath) s1 of
                None \<Rightarrow> None
              | Some (Inl err, s2) \<Rightarrow> Some (Inl err, untrack_item memoryId s2)
              | Some (Inr path, s2) \<Rightarrow>
                  (case stat (remote (outside s2)) path of
                     Inl err \<Rightarrow> Some (Inl err, untrack_item memoryId s2)
                   | Inr sz \<Rightarrow>
                       Some (Inr \<lparr>dr_cid = cid input, dr_filePath = path, dr_size = sz,
                                  decrypted = or_default dec False\<rparr>,
                             untrack_item memoryId s2))))"

text \<open>
  Modelled from the spec: the configuration of \<^verbatim>\<open>BatchProcessor\<close> (not among the
  sources). It has the keys of the object both batch methods pass,
  \<^verbatim>\<open>{ concurrency, retryOnFailure, maxRetries, onProgress }\<close>, and the
  \<^verbatim>\<open>continueOnError\<close> of the specification's batch configuration, \<open>None\<close> when
  the key is absent. \<^verbatim>\<open>onProgress\<close> is the closure of the source, acting on the
  SDK. The other two records are the operations passed to \<^verbatim>\<open>addBatch\<close> and what it
  returns for each.
\<close>

record 'w BatchOptions =
  bo_concurrency :: js_number
  retryOnFailure :: bool
  bo_maxRetries :: nat
  bo_continueOnError :: "bool option"
  onProgress :: "nat \<Rightarrow> nat \<Rightarrow> 'w sdk \<Rightarrow> 'w sdk"

record 'i BatchOperation =
  op_id :: string
  op_data :: 'i

record 'r BatchResult =
  br_id :: string
  br_success :: bool
  br_result :: "'r option"
  br_error :: "js_error option"
  br_duration :: int
  br_retries :: nat

text \<open>The \<^verbatim>\<open>onProgress\<close> closure of \<^verbatim>\<open>batchUpload\<close> and \<^verbatim>\<open>batchDownload\<close>:
  \<^verbatim>\<open>completedCount = completed; failedCount = total - completed\<close>, then the progress
  event and the caller's callback, both with \<^verbatim>\<open>files.length\<close> as the total.\<close>

definition sdk_onProgress :: "string \<Rightarrow> nat \<Rightarrow> bool \<Rightarrow> nat \<Rightarrow> nat \<Rightarrow> 'w sdk \<Rightarrow> 'w sdk" where
  "sdk_onProgress operationId nfiles given completed tot s =
     (let completedCount = int completed;
          failedCount = int tot - int completed;
          s1 = emit (BatchProgress operationId completedCount nfiles failedCount) s
      in if given then emit (UserProgress completedCount nfiles failedCount) s1 else s1)"

text \<open>\<^verbatim>\<open>files.map((file, index) => ({ id: `upload_${index}_${file.filePath}`, data: file }))\<close>.\<close>

fun operations_from :: "string \<Rightarrow> ('i \<Rightarrow> string) \<Rightarrow> nat \<Rightarrow> 'i list \<Rightarrow> 'i BatchOperation list" where
  "operations_from prefix key index [] = []"
| "operations_from prefix key index (file # rest) =
     \<lparr>op_id = prefix @ show_nat index @ ''_'' @ key file, op_data = file\<rparr>
     # operations_from prefix key (Suc index) rest"

text \<open>The conversion of the processor's results and the result object, shared by both
  methods. \<^verbatim>\<open>averageDuration\<close> is \<^verbatim>\<open>totalDuration / files.length\<close> with no
  guard.\<close>

definition convert_result :: "'r BatchResult \<Rightarrow> 'r BatchFileResult" where
  "convert_result br =
     \<lparr>item_id = br_id br, success = br_success br, data = br_result br,
      error = map_option message (br_error br), duration = br_duration br,
      retries = br_retries br\<rparr>"

definition operationResult :: "nat \<Rightarrow> int \<Rightarrow> 'r BatchResult list \<Rightarrow> 'r BatchOperationResult" where
  "operationResult nfiles totalDur batchResults =
     (let rs = map convert_result batchResults;
          nsucc = length (filter (\<lambda>r. success r) rs);
          nfail = length (filter (\<lambda>r. \<not> success r) rs)
      in \<lparr>total = nfiles, successful = nsucc, failed = nfail,
          successRate = (if nfiles > 0 then js_div (of_nat nsucc) (of_nat nfiles) else Num 0),
          totalDuration = totalDur,
          averageDuration = js_div (of_int totalDur) (of_nat nfiles),
          results = rs\<rparr>)"

text \<open>
  \<^verbatim>\<open>LighthouseAISDK.batchUpload\<close> up to and including
  \<^verbatim>\<open>await processor.addBatch(operations)\<close>. \<^verbatim>\<open>BatchProcessor\<close> is not among the sources:
  \<open>processor\<close>, a parameter, stands for \<^verbatim>\<open>new BatchProcessor(worker, options)\<close>
  followed by \<^verbatim>\<open>addBatch(operations)\<close>; it gives \<open>None\<close> when it does not return
  and \<open>Inl\<close> when it throws (\<^verbatim>\<open>processor.destroy()\<close> in the \<^verbatim>\<open>finally\<close> is
  outside the model). The worker is the function of the source, built from the SDK's
  circuit breaker, error handler, rate limiter and \<^verbatim>\<open>validateFile\<close>; \<open>attempt\<close>
  gives the upload attempt for the batch options and a file. \<open>operationId\<close> is what
  \<^verbatim>\<open>generateOperationId()\<close> returned. The caller's \<^verbatim>\<open>continueOnError\<close> is
  passed as \<^verbatim>\<open>retryOnFailure: continueOnError\<close>; the object has no
  \<^verbatim>\<open>continueOnError\<close> key.
\<close>

definition upload_addBatch ::
  "((BatchUploadInput \<Rightarrow> 'w sdk \<Rightarrow> ((js_error + FileInfo) \<times> 'w sdk) option)
      \<Rightarrow> 'w BatchOptions \<Rightarrow> BatchUploadInput BatchOperation list \<Rightarrow> 'w sdk
      \<Rightarrow> ((js_error + FileInfo BatchResult list) \<times> 'w sdk) option)
     \<Rightarrow> cb_config \<Rightarrow> retry_config \<Rightarrow> ('w outside \<Rightarrow> 'w outside option)
     \<Rightarrow> ('w \<Rightarrow> string \<Rightarrow> js_error + nat)
     \<Rightarrow> (BatchUploadOptions \<Rightarrow> BatchUploadInput \<Rightarrow> 'w outside \<Rightarrow> (js_error + FileInfo) \<times> 'w outside)
     \<Rightarrow> string \<Rightarrow> BatchUploadInput list \<Rightarrow> BatchUploadOptions \<Rightarrow> 'w sdk
     \<Rightarrow> ((js_error + FileInfo BatchResult list) \<times> 'w sdk) option" where
  "upload_addBatch processor cfg rcfg grant validateFile attempt operationId files options s =
     (let conc = or_default (concurrency options) (Num 3);
          continue = or_default (continueOnError options) True;
          retries_allowed = or_default (maxRetries options) 3;
          s1 = emit (BatchStart operationId (length files) conc) s
      in processor
           (upload_worker cfg rcfg grant validateFile (attempt options) operationId)
           \<lparr>bo_concurrency = conc, retryOnFailure = continue, bo_maxRetries = retries_allowed,
            bo_continueOnError = None,
            onProgress = sdk_onProgress operationId (length files) (onProgress_given options)\<rparr>
           (operations_from ''upload_'' filePath 0 files) s1)"

text \<open>The rest of \<^verbatim>\<open>batchUpload\<close>: the result object when \<^verbatim>\<open>addBatch\<close> returned;
  when it threw, the \<^verbatim>\<open>catch\<close> emits \<^verbatim>\<open>batch:upload:error\<close> and throws the error
  again.\<close>

definition sdk_batchUpload ::
  "((BatchUploadInput \<Rightarrow> 'w sdk \<Rightarrow> ((js_error + FileInfo) \<times> 'w sdk) option)
      \<Rightarrow> 'w BatchOptions \<Rightarrow> BatchUploadInput BatchOperation list \<Rightarrow> 'w sdk
      \<Rightarrow> ((js_error + FileInfo BatchResult list) \<times> 'w sdk) option)
     \<Rightarrow> cb_config \<Rightarrow> retry_config \<Rightarrow> ('w outside \<Rightarrow> 'w outside option)
     \<Rightarrow> ('w \<Rightarrow> string \<Rightarrow> js_error + nat)
     \<Rightarrow> (BatchUploadOptions \<Rightarrow> BatchUploadInput \<Rightarrow> 'w outside \<Rightarrow> (js_error + FileInfo) \<times> 'w outside)
     \<Rightarrow> string \<Rightarrow> BatchUploadInput list \<Rightarrow> BatchUploadOptions \<Rightarrow> 'w sdk
     \<Rightarrow> ((js_error + FileInfo BatchOperationResult) \<times> 'w sdk) option" where
  "sdk_batchUpload processor cfg rcfg grant validateFile attempt operationId files options s =
     (let startTime = clock (outside s)
      in case upload_addBatch processor cfg rcfg grant validateFile attempt operationId files options s of
           None \<Rightarrow> None
         | Some (Inl err, s2) \<Rightarrow> Some (Inl err, emit (BatchError operationId (message err)) s2)
         | Some (Inr batchResults, s2) \<Rightarrow>
             Some (Inr (operationResult (length files) (clock (outside s2) - startTime) batchResults),
                   emit (BatchComplete operationId) s2))"

text \<open>\<^verbatim>\<open>LighthouseAISDK.batchDownload\<close>, in the same two parts; the output directory
  defaults to \<^verbatim>\<open>./downloads\<close>.\<close>

definition download_addBatch ::
  "((BatchDownloadInput \<Rightarrow> 'w sdk \<Rightarrow> ((js_error + BatchDownloadFileResult) \<times> 'w sdk) option)
      \<Rightarrow> 'w BatchOptions \<Rightarrow> BatchDownloadInput BatchOperation list \<Rightarrow> 'w sdk
      \<Rightarrow> ((js_error + BatchDownloadFileResult BatchResult list) \<times> 'w sdk) option)
     \<Rightarrow> cb_config \<Rightarrow> retry_config \<Rightarrow> ('w outside \<Rightarrow> 'w outside option)
     \<Rightarrow> ('w \<Rightarrow> string \<Rightarrow> js_error + nat)
     \<Rightarrow> (BatchDownloadOptions \<Rightarrow> BatchDownloadInput \<Rightarrow> string \<Rightarrow> 'w outside
          \<Rightarrow> (js_error + string) \<times> 'w outside)
     \<Rightarrow> string \<Rightarrow> BatchDownloadInput list \<Rightarrow> BatchDownloadOptions \<Rightarrow> 'w sdk
     \<Rightarrow> ((js_error + BatchDownloadFileResult BatchResult list) \<times> 'w sdk) option" where
  "download_addBatch processor cfg rcfg grant stat attempt operationId files options s =
     (let conc = or_default (d_concurrency options) (Num 3);
          continue = or_default (d_continueOnError options) True;
          retries_allowed = or_default (d_maxRetries options) 3;
          outDir = or_default (outputDir options) ''./downloads'';
          s1 = emit (BatchDownloadStart operationId (length files) conc outDir) s
      in processor
           (download_worker cfg rcfg grant stat (attempt options) operationId outDir
              (decrypt options))
           \<lparr>bo_concurrency = conc, retryOnFailure = continue, bo_maxRetries = retries_allowed,
            bo_continueOnError = None,
            onProgress = sdk_onProgress operationId (length files) (d_onProgress_given options)\<rparr>
           (operations_from ''download_'' cid 0 files) s1)"

definition sdk_batchDownload ::
  "((BatchDownloadInput \<Rightarrow> 'w sdk \<Rightarrow> ((js_error + BatchDownloadFileResult) \<times> 'w sdk) option)
      \<Rightarrow> 'w BatchOptions \<Rightarrow> BatchDownloadInput BatchOperation list \<Rightarrow> 'w sdk
      \<Rightarrow> ((js_error + BatchDownloadFileResult BatchResult list) \<times> 'w sdk) option)
     \<Rightarrow> cb_config \<Rightarrow> retry_config \<Rightarrow> ('w outside \<Rightarrow> 'w outside option)
     \<Rightarrow> ('w \<Rightarrow> string \<Rightarrow> js_error + nat)
     \<Rightarrow> (BatchDownloadOptions \<Rightarrow> BatchDownloadInput \<Rightarrow> string \<Rightarrow> 'w outside
          \<Rightarrow> (js_error + string) \<times> 'w outside)
     \<Rightarrow> string \<Rightarrow> BatchDownloadInput list \<Rightarrow> BatchDownloadOptions \<Rightarrow> 'w sdk
     \<Rightarrow> ((js_error + BatchDownloadFileResult BatchOperationResult) \<times> 'w sdk) option" where
  "sdk_batchDownload processor cfg rcfg grant stat attempt operationId files options s =
     (let startTime = clock (outside s)
      in case download_addBatch processor cfg rcfg grant stat attempt operationId files options s of
           None \<Rightarrow> None
         | Some (Inl err, s2) \<Rightarrow> Some (Inl err, emit (BatchError operationId (message err)) s2)
         | Some (Inr batchResults, s2) \<Rightarrow>
             Some (Inr (operationResult (length files) (clock (outside s2) - startTime) batchResults),
                   emit (BatchComplete operationId) s2))"

subsection \<open>BatchProcessor\<close>

text \<open>Modelled from the spec: the retries of one item by \<^verbatim>\<open>BatchProcessor\<close>
  (\<^verbatim>\<open>./batch/BatchProcessor\<close>, not among the sources). The item's function is run
  again after a retryable failure while retries are left; the result carries the
  number of retries made.\<close>

fun run_item ::
  "(js_error \<Rightarrow> bool) \<Rightarrow> ('i \<Rightarrow> 'w sdk \<Rightarrow> ((js_error + 'r) \<times> 'w sdk) option) \<Rightarrow> 'i \<Rightarrow> nat \<Rightarrow> nat
     \<Rightarrow> 'w sdk \<Rightarrow> (((js_error + 'r) \<times> nat) \<times> 'w sdk) option" where
  "run_item can_retry worker input made left s =
     (case worker input s of
        None \<Rightarrow> None
      | Some (Inr v, s1) \<Rightarrow> Some ((Inr v, made), s1)
      | Some (Inl err, s1) \<Rightarrow>
          (case left of
             0 \<Rightarrow> Some ((Inl err, made), s1)
           | Suc k \<Rightarrow>
               if can_retry err then run_item can_retry worker input (Suc made) k s1
               else Some ((Inl err, made), s1)))"

text \<open>Modelled from the spec: \<^verbatim>\<open>BatchProcessor.addBatch\<close> (not among the sources),
  for the schedule in which the items run one after the other in input order. Each
  completion, success or exhausted failure, records a result with its duration and
  retries and calls \<^verbatim>\<open>onProgress\<close> with the number of items completed and the
  number of items of the batch. Retries are made when \<^verbatim>\<open>retryOnFailure\<close> is set.
  When \<^verbatim>\<open>continueOnError\<close> is false and an item has failed for good, no further
  item is started and the item's error is thrown, the results so far being lost to the
  caller; otherwise (true, or absent: the default) all items run and the results are
  returned.\<close>

fun process_items ::
  "(js_error \<Rightarrow> bool) \<Rightarrow> ('i \<Rightarrow> 'w sdk \<Rightarrow> ((js_error + 'r) \<times> 'w sdk) option) \<Rightarrow> 'w BatchOptions
     \<Rightarrow> nat \<Rightarrow> nat \<Rightarrow> 'i BatchOperation list \<Rightarrow> 'r BatchResult list \<Rightarrow> 'w sdk
     \<Rightarrow> ((js_error + 'r BatchResult list) \<times> 'w sdk) option" where
  "process_items can_retry worker opts tot completed [] acc s = Some (Inr acc, s)"
| "process_items can_retry worker opts tot completed (operation # rest) acc s =
     (let started = clock (outside s) in
      case run_item can_retry worker (op_data operation) 0
             (if retryOnFailure opts then bo_maxRetries opts else 0) s of
        None \<Rightarrow> None
      | Some ((res, made), s1) \<Rightarrow>
          (let s2 = onProgress opts (Suc completed) tot s1 in
           case res of
             Inl err \<Rightarrow>
               if bo_continueOnError opts = Some False then Some (Inl err, s2)
               else process_items can_retry worker opts tot (Suc completed) rest
                      (acc @ [\<lparr>br_id = op_id operation, br_success = False, br_result = None,
                                br_error = Some err, br_duration = clock (outside s1) - started,
                                br_retries = made\<rparr>])
                      s2
           | Inr v \<Rightarrow>
               process_items can_retry worker opts tot (Suc completed) rest
                 (acc @ [\<lparr>br_id = op_id operation, br_success = True, br_result = Some v,
                           br_error = None, br_duration = clock (outside s1) - started,
                           br_retries = made\<rparr>])
                 s2))"

definition BatchProcessor_addBatch ::
  "(js_error \<Rightarrow> bool) \<Rightarrow> ('i \<Rightarrow> 'w sdk \<Rightarrow> ((js_error + 'r) \<times> 'w sdk) option) \<Rightarrow> 'w BatchOptions
     \<Rightarrow> 'i BatchOperation list \<Rightarrow> 'w sdk \<Rightarrow> ((js_error + 'r BatchResult list) \<times> 'w sdk) option" where
  "BatchProcessor_addBatch can_retry worker opts operations s =
     process_items can_retry worker opts (length operations) 0 operations [] s"

text \<open>
  Items run concurrently between their \<^verbatim>\<open>await\<close>s. For the memory manager two
  moments of an item matter: its start, which runs up to \<^verbatim>\<open>track\<close>, and its end,
  where the \<^verbatim>\<open>finally\<close> untracks after the transfer has succeeded or thrown. A
  schedule is a sequence of such moments of the items of one \<^verbatim>\<open>batchUpload\<close>.
\<close>

datatype moment = Start nat | Finish nat

fun run_moment ::
  "('w \<Rightarrow> string \<Rightarrow> js_error + nat) \<Rightarrow> string \<Rightarrow> BatchUploadInput list \<Rightarrow> moment \<Rightarrow> 'w sdk \<Rightarrow> 'w sdk" where
  "run_moment validateFile operationId files (Start i) s =
     (if i < length files then snd (upload_begin validateFile operationId (files ! i) s) else s)"
| "run_moment validateFile operationId files (Finish i) s =
     (if i < length files
      then untrack_item (''upload_'' @ operationId @ ''_'' @ filePath (files ! i)) s else s)"

fun run_schedule ::
  "('w \<Rightarrow> string \<Rightarrow> js_error + nat) \<Rightarrow> string \<Rightarrow> BatchUploadInput list \<Rightarrow> moment list \<Rightarrow> 'w sdk \<Rightarrow> 'w sdk" where
  "run_schedule validateFile operationId files [] s = s"
| "run_schedule validateFile operationId files (m # ms) s =
     run_schedule validateFile operationId files ms (run_moment validateFile operationId files m s)"

subsection \<open>Sequences of calls through the circuit breaker\<close>

text \<open>Modelled from the spec: the effect on \<^verbatim>\<open>CircuitBreaker\<close> (not among the sources)
  of calls made one after the other, each given by the time it arrives, the time it
  ends and whether it succeeds.\<close>

fun cb_call :: "cb_config \<Rightarrow> int \<times> int \<times> bool \<Rightarrow> circuit_breaker \<Rightarrow> circuit_breaker" where
  "cb_call cfg (arrives, ends, ok) b =
     (case cb_admit cfg arrives b of (a, b1) \<Rightarrow> cb_record cfg a ok ends b1)"

fun cb_calls :: "cb_config \<Rightarrow> (int \<times> int \<times> bool) list \<Rightarrow> circuit_breaker \<Rightarrow> circuit_breaker" where
  "cb_calls cfg [] b = b"
| "cb_calls cfg (c # cs) b = cb_calls cfg cs (cb_call cfg c b)"

section \<open>ConnectionPool (packages/sdk-wrapper/src/pool)\<close>

record pool_config =
  maxConnections :: nat
  acquireTimeout :: int

record waiter =
  waiter_id :: nat
  deadline :: int

text \<open>Modelled from the spec: the state of \<^verbatim>\<open>ConnectionPool\<close> (\<^verbatim>\<open>../pool\<close>; only its
  tests are among the sources). Connections are numbered in the order of their
  creation; \<open>created\<close> counts them and \<open>waiters\<close> the requests queued so far.\<close>

record pool =
  idle :: "nat list"
  active :: "nat list"
  queue :: "waiter list"
  created :: nat
  waiters :: nat

definition totalConnections :: "pool \<Rightarrow> nat" where
  "totalConnections p = length (idle p) + length (active p)"

datatype acquired = Connection nat | Enqueued nat

text \<open>Modelled from the spec: \<^verbatim>\<open>ConnectionPool.acquire\<close> at time \<open>t\<close>, up to the point
  where it returns a connection or suspends in the wait queue. With
  \<open>maxConnections = 0\<close> the request times out at once, so its deadline is \<open>t\<close>.\<close>

definition acquire :: "pool_config \<Rightarrow> int \<Rightarrow> pool \<Rightarrow> acquired \<times> pool" where
  "acquire cfg t p =
     (case idle p of
        c # rest \<Rightarrow> (Connection c, p\<lparr>idle := rest, active := active p @ [c]\<rparr>)
      | [] \<Rightarrow>
          if totalConnections p < maxConnections cfg
          then (Connection (created p),
                p\<lparr>active := active p @ [created p], created := Suc (created p)\<rparr>)
          else (Enqueued (waiters p),
                p\<lparr>queue := queue p @ [\<lparr>waiter_id = waiters p,
                                        deadline = (if maxConnections cfg = 0 then t
                                                    else t + acquireTimeout cfg)\<rparr>],
                  waiters := Suc (waiters p)\<rparr>))"

text \<open>Modelled from the spec: \<^verbatim>\<open>ConnectionPool.release(conn)\<close> (not among the sources).
  A connection the pool does not hold as active is ignored with a warning. Otherwise
  the oldest waiter, if any, is resolved with the connection, which stays active;
  with no waiter the connection becomes idle. The result names the waiter resolved.\<close>

definition release :: "nat \<Rightarrow> pool \<Rightarrow> nat option \<times> pool" where
  "release c p =
     (if c \<notin> set (active p) then (None, p)
      else case queue p of
        [] \<Rightarrow> (None, p\<lparr>idle := idle p @ [c], active := removeAll c (active p)\<rparr>)
      | w # ws \<Rightarrow> (Some (waiter_id w), p\<lparr>queue := ws\<rparr>))"

text \<open>Modelled from the spec: the timer of a queued \<^verbatim>\<open>acquire\<close> firing at time \<open>t\<close>
  (\<^verbatim>\<open>ConnectionPool\<close> is not among the sources). A request still queued at its
  deadline is removed from the queue and rejected with the timeout error; one that was
  resolved before has no timer left.\<close>

definition time_out :: "nat \<Rightarrow> int \<Rightarrow> pool \<Rightarrow> js_error option \<times> pool" where
  "time_out w t p =
     (if list_ex (\<lambda>x. waiter_id x = w \<and> deadline x \<le> t) (queue p)
      then (Some (Error ''Connection acquire timeout''),
            p\<lparr>queue := filter (\<lambda>x. waiter_id x \<noteq> w) (queue p)\<rparr>)
      else (None, p))"

section \<open>Example inputs\<close>

text \<open>A mock service with one file on disk, \<^verbatim>\<open>/data/a.txt\<close> of 10 bytes, an empty
  store and \<^verbatim>\<open>Math.random()\<close> returning 0.\<close>

definition demo_env :: env where
  "demo_env =
     \<lparr>fileSize = (\<lambda>p. if p = ''/data/a.txt'' then Some 10 else None),
      generate = (\<lambda>p. ''Qm'' @ p), isValid = (\<lambda>c. True), random = (\<lambda>t. 0)\<rparr>"

definition demo_state :: mock_state where
  "demo_state = \<lparr>fileStore = Map.empty, currentStorageSize = 0, maxStorageSize = 1000, now = 0\<rparr>"

definition demo_options :: BatchUploadOptions where
  "demo_options =
     \<lparr>concurrency = None, encrypt = None, accessConditions = None, tags = None,
      continueOnError = Some True, maxRetries = None, onProgress_given = True\<rparr>"

definition demo_doptions :: BatchDownloadOptions where
  "demo_doptions =
     \<lparr>d_concurrency = None, outputDir = None, decrypt = None,
      d_continueOnError = Some True, d_maxRetries = None, d_onProgress_given = True\<rparr>"

text \<open>An SDK instance that has made no call yet, a breaker that opens after three
  failures, a handler that retries every error three times, and a rate limiter that
  always grants a token.\<close>

definition demo_cb_config :: cb_config where
  "demo_cb_config = \<lparr>failureThreshold = 3, resetTimeout = 60000\<rparr>"

definition demo_retry_config :: retry_config where
  "demo_retry_config =
     \<lparr>r_maxRetries = 3, baseDelay = 1000, maxDelay = 30000, retryable = (\<lambda>err. True)\<rparr>"

definition demo_sdk :: "unit sdk" where
  "demo_sdk =
     \<lparr>breaker = \<lparr>state = CLOSED, failureCount = 0, successCount = 0, openedAt = 0,
                  lastFailureTime = None\<rparr>,
      attempts = 0,
      memory = \<lparr>allocations = [], underBackpressure = False\<rparr>,
      emitted = [],
      outside = \<lparr>clock = 0, remote = ()\<rparr>\<rparr>"

definition demo_grant :: "unit outside \<Rightarrow> unit outside option" where
  "demo_grant w = Some w"

text \<open>An endpoint that is down, each attempt timing out after 100 ms, and one that
  stores every file in 100 ms.\<close>

definition failing_attempt :: "unit outside \<Rightarrow> (js_error + FileInfo) \<times> unit outside" where
  "failing_attempt w = (Inl (Error ''ETIMEDOUT''), sleep 100 w)"

definition working_attempt ::
  "BatchUploadInput \<Rightarrow> unit outside \<Rightarrow> (js_error + FileInfo) \<times> unit outside" where
  "working_attempt input w =
     (Inr \<lparr>hash = ''Qm'' @ filePath input, name = file_name (filePath input), fi_size = 10,
           fi_encrypted = False, mimeType = ''application/octet-stream'',
           fi_uploadedAt = clock w + 100\<rparr>, sleep 100 w)"

definition demo_validateFile :: "unit \<Rightarrow> string \<Rightarrow> js_error + nat" where
  "demo_validateFile w p = Inr 10"

text \<open>The calls of the caller's \<^verbatim>\<open>onProgress\<close> callback among the events.\<close>

fun user_progress :: "sdk_event list \<Rightarrow> (int \<times> nat \<times> int) list" where
  "user_progress [] = []"
| "user_progress (UserProgress c t f # evs) = (c, t, f) # user_progress evs"
| "user_progress (_ # evs) = user_progress evs"

text \<open>A tool call as in the tools' tests: one readable file of 1024 bytes, a
  concurrency of 20, and a service that counts the calls it receives.\<close>

definition demo_stat :: "string \<Rightarrow> (bool \<times> nat) option" where
  "demo_stat p = Some (True, 1024)"

definition demo_params :: BatchUploadParams where
  "demo_params =
     \<lparr>p_filePaths = Some [''/test/file.txt''], p_concurrency = Number (Num 20),
      p_encrypt = Undefined, p_accessConditions = Undefined, p_tags = Undefined,
      p_continueOnError = Undefined\<rparr>"

definition empty_result :: "'d BatchOperationResult" where
  "empty_result =
     \<lparr>total = 0, successful = 0, failed = 0, successRate = Num 0, totalDuration = 0,
      averageDuration = Num 0, results = []\<rparr>"

definition counting_upload_service ::
  "nat \<Rightarrow> upload_call \<Rightarrow> (js_error + FileInfo BatchOperationResult) \<times> nat" where
  "counting_upload_service n call = (Inr empty_result, Suc n)"

definition demo_dir_env :: dir_env where
  "demo_dir_env = \<lparr>access_ok = (\<lambda>d. True), mkdir_ok = (\<lambda>d. True)\<rparr>"

definition demo_dparams :: BatchDownloadParams where
  "demo_dparams =
     \<lparr>p_cids = Some [''QmTestAAAAAAAAAAAAAAAAAAAAAAAAAAAAAAAA''], p_outputDir = Undefined,
      pd_concurrency = Number (Num 20), p_decrypt = Undefined, pd_continueOnError = Undefined\<rparr>"

definition counting_download_service ::
  "nat \<Rightarrow> download_call \<Rightarrow> (js_error + BatchDownloadFileResult BatchOperationResult) \<times> nat" where
  "counting_download_service n call = (Inr empty_result, Suc n)"

text \<open>A batch that names the same file twice.\<close>

definition twice :: "BatchUploadInput list" where
  "twice =
     [\<lparr>filePath = ''/data/a.txt'', fileName = None\<rparr>, \<lparr>filePath = ''/data/a.txt'', fileName = None\<rparr>]"

text \<open>Three calls that fail one after the other, each taking 100 ms; the instance with
  its breaker opened at time 300, asked again at times 1000 and 60300; and a pool of at
  most one connection with that connection in use.\<close>

definition three_failures :: "(int \<times> int \<times> bool) list" where
  "three_failures = [(0, 100, False), (100, 200, False), (200, 300, False)]"

definition opened_breaker :: circuit_breaker where
  "opened_breaker =
     \<lparr>state = OPEN, failureCount = 3, successCount = 0, openedAt = 300, lastFailureTime = Some 300\<rparr>"

definition tripped_sdk :: "int \<Rightarrow> unit sdk" where
  "tripped_sdk t = demo_sdk\<lparr>breaker := opened_breaker, outside := \<lparr>clock = t, remote = ()\<rparr>\<rparr>"

definition demo_pool_config :: pool_config where
  "demo_pool_config = \<lparr>maxConnections = 1, acquireTimeout = 5000\<rparr>"

definition exhausted_pool :: pool where
  "exhausted_pool = \<lparr>idle = [], active = [0], queue = [], created = 1, waiters = 0\<rparr>"

text \<open>Batches of this instance: uploads with the endpoint working and with it down,
  through the batch processor with every error retryable.\<close>

definition demo_batchUpload ::
  "BatchUploadInput list \<Rightarrow> ((js_error + FileInfo BatchOperationResult) \<times> unit sdk) option" where
  "demo_batchUpload files =
     sdk_batchUpload (BatchProcessor_addBatch (\<lambda>err. True)) demo_cb_config demo_retry_config
       demo_grant demo_validateFile (\<lambda>options. working_attempt) ''op1'' files demo_options demo_sdk"

definition demo_failing_batchUpload ::
  "BatchUploadInput list \<Rightarrow> ((js_error + FileInfo BatchOperationResult) \<times> unit sdk) option" where
  "demo_failing_batchUpload files =
     sdk_batchUpload (BatchProcessor_addBatch (\<lambda>err. True)) demo_cb_config demo_retry_config
       demo_grant demo_validateFile (\<lambda>options input. failing_attempt) ''op1'' files demo_options
       demo_sdk"

definition two_files :: "BatchUploadInput list" where
  "two_files =
     [\<lparr>filePath = ''/data/a.txt'', fileName = None\<rparr>, \<lparr>filePath = ''/data/b.txt'', fileName = None\<rparr>]"

text \<open>The options of a caller who asks for the batch to stop at the first failure, and
  a download endpoint that is down.\<close>

definition stop_on_error :: BatchUploadOptions where
  "stop_on_error = demo_options\<lparr>continueOnError := Some False\<rparr>"

definition stop_on_derror :: BatchDownloadOptions where
  "stop_on_derror = demo_doptions\<lparr>d_continueOnError := Some False\<rparr>"

definition failing_download ::
  "BatchDownloadOptions \<Rightarrow> BatchDownloadInput \<Rightarrow> string \<Rightarrow> unit outside
     \<Rightarrow> (js_error + string) \<times> unit outside" where
  "failing_download options input path w = (Inl (Error ''ETIMEDOUT''), sleep 100 w)"

section \<open>Properties of the mock service's batch methods\<close>

lemma upload_loop_length:
  "upload_loop e options s ps rs = (Inr rs', s') \<Longrightarrow> length rs' = length rs + length ps"
proof (induction ps arbitrary: s rs)
  case Nil
  then show ?case by simp
next
  case (Cons p ps)
  then show ?case
    by (auto simp: Let_def split: prod.splits sum.splits if_splits)
qed

lemma download_loop_length:
  "download_loop e options s cs rs = (Inr rs', s') \<Longrightarrow> length rs' = length rs + length cs"
proof (induction cs arbitrary: s rs)
  case Nil
  then show ?case by simp
next
  case (Cons c cs)
  then show ?case
    by (auto simp: Let_def split: prod.splits sum.splits if_splits)
qed

text \<open>The loop over a list that is split in two runs the first part and, unless that
  part threw, goes on with the second from the state and results reached.\<close>

lemma upload_loop_append:
  "upload_loop e options s (xs @ ys) rs =
     (case upload_loop e options s xs rs of
        (Inl err, s') \<Rightarrow> (Inl err, s')
      | (Inr rs', s') \<Rightarrow> upload_loop e options s' ys rs')"
proof (induction xs arbitrary: s rs)
  case Nil
  then show ?case by simp
next
  case (Cons x xs)
  then show ?case
    by (simp add: Let_def split: prod.splits sum.splits)
qed

lemma download_loop_append:
  "download_loop e options s (xs @ ys) rs =
     (case download_loop e options s xs rs of
        (Inl err, s') \<Rightarrow> (Inl err, s')
      | (Inr rs', s') \<Rightarrow> download_loop e options s' ys rs')"
proof (induction xs arbitrary: s rs)
  case Nil
  then show ?case by simp
next
  case (Cons x xs)
  then show ?case
    by (simp add: Let_def split: prod.splits sum.splits)
qed

lemma filter_split_length:
  "length (filter P xs) + length (filter (\<lambda>x. \<not> P x) xs) = length xs"
  by (induction xs) auto

lemma mock_summary_total: "total (mock_summary n d rs) = n"
  by (simp add: mock_summary_def Let_def)

lemma mock_summary_results: "results (mock_summary n d rs) = rs"
  by (simp add: mock_summary_def Let_def)

lemma mock_summary_counts:
  "successful (mock_summary n d rs) + failed (mock_summary n d rs) = length rs"
  by (simp add: mock_summary_def Let_def filter_split_length)

lemma batchUploadFiles_Inr:
  assumes "batchUploadFiles e s ps options = (Inr r, s')"
  shows "\<exists>rs. upload_loop e options s ps [] = (Inr rs, s')
              \<and> r = mock_summary (length ps) (now s' - now s) rs"
  using assms by (auto simp: batchUploadFiles_def Let_def split: prod.splits sum.splits)

lemma batchDownloadFiles_Inr:
  assumes "batchDownloadFiles e s cs options = (Inr r, s')"
  shows "\<exists>rs. download_loop e options s cs [] = (Inr rs, s')
              \<and> r = mock_summary (length cs) (now s' - now s) rs"
  using assms by (auto simp: batchDownloadFiles_def Let_def split: prod.splits sum.splits)

lemma operations_from_length: "length (operations_from prefix key i files) = length files"
  by (induction files arbitrary: i) auto

lemma operationResult_total: "total (operationResult n d brs) = n"
  by (simp add: operationResult_def Let_def)

lemma operationResult_results: "length (results (operationResult n d brs)) = length brs"
  by (simp add: operationResult_def Let_def)

lemma sdk_batchUpload_Inr:
  assumes "sdk_batchUpload processor cfg rcfg grant validateFile attempt operationId files options k
             = Some (Inr r, k')"
  shows "\<exists>worker opts k1 k2 brs.
           processor worker opts (operations_from ''upload_'' filePath 0 files) k1 = Some (Inr brs, k2)
           \<and> r = operationResult (length files) (clock (outside k2) - clock (outside k)) brs"
  using assms
  by (fastforce simp: sdk_batchUpload_def upload_addBatch_def Let_def
        split: option.splits prod.splits sum.splits)

lemma sdk_batchDownload_Inr:
  assumes "sdk_batchDownload processor cfg rcfg grant stat attempt operationId files options k
             = Some (Inr r, k')"
  shows "\<exists>worker opts k1 k2 brs.
           processor worker opts (operations_from ''download_'' cid 0 files) k1 = Some (Inr brs, k2)
           \<and> r = operationResult (length files) (clock (outside k2) - clock (outside k)) brs"
  using assms
  by (fastforce simp: sdk_batchDownload_def download_addBatch_def Let_def
        split: option.splits prod.splits sum.splits)

lemma process_items_length:
  "process_items can_retry worker opts tot completed ops acc k = Some (Inr rs, k')
     \<Longrightarrow> length rs = length acc + length ops"
proof (induction ops arbitrary: completed acc k)
  case Nil
  then show ?case by simp
next
  case (Cons operation ops)
  then show ?case
    by (auto simp: Let_def split: option.splits prod.splits sum.splits if_splits)
qed

lemma BatchProcessor_addBatch_length:
  "BatchProcessor_addBatch can_retry worker opts ops k = Some (Inr brs, k')
     \<Longrightarrow> length brs = length ops"
  by (auto simp: BatchProcessor_addBatch_def dest: process_items_length)

text \<open>A processor that was not told to stop at a failure throws nothing.\<close>

lemma process_items_continues:
  "bo_continueOnError opts \<noteq> Some False
     \<Longrightarrow> process_items can_retry worker opts tot completed ops acc k \<noteq> Some (Inl err, k')"
proof (induction ops arbitrary: completed acc k)
  case Nil
  then show ?case by simp
next
  case (Cons operation ops)
  then show ?case
    by (auto simp: Let_def split: option.splits prod.splits sum.splits)
qed

text \<open>Whenever a batch method returns a result, \<^verbatim>\<open>total\<close> is the number of items
  given and the result has one entry for each of them.\<close>

lemma batchUploadFiles_entries:
  assumes "batchUploadFiles e s ps options = (Inr r, s')"
  shows "total r = length ps \<and> length (results r) = length ps"
proof -
  from assms obtain rs0 where "upload_loop e options s ps [] = (Inr rs0, s')"
    and "r = mock_summary (length ps) (now s' - now s) rs0"
    using batchUploadFiles_Inr by blast
  then show ?thesis
    using upload_loop_length[of e options s ps "[]" rs0 s']
    by (simp add: mock_summary_total mock_summary_results)
qed

lemma batchDownloadFiles_entries:
  assumes "batchDownloadFiles e s cs options = (Inr r, s')"
  shows "total r = length cs \<and> length (results r) = length cs"
proof -
  from assms obtain rs0 where "download_loop e options s cs [] = (Inr rs0, s')"
    and "r = mock_summary (length cs) (now s' - now s) rs0"
    using batchDownloadFiles_Inr by blast
  then show ?thesis
    using download_loop_length[of e options s cs "[]" rs0 s']
    by (simp add: mock_summary_total mock_summary_results)
qed

lemma sdk_batchUpload_entries:
  assumes returned:
    "sdk_batchUpload (BatchProcessor_addBatch can_retry) cfg rcfg grant validateFile attempt
       operationId files options k = Some (Inr r, k')"
  shows "total r = length files \<and> length (results r) = length files"
  using sdk_batchUpload_Inr[OF returned]
  by (auto dest!: BatchProcessor_addBatch_length
      simp: operationResult_total operationResult_results operations_from_length)

lemma sdk_batchDownload_entries:
  assumes returned:
    "sdk_batchDownload (BatchProcessor_addBatch can_retry) cfg rcfg grant stat attempt
       operationId files options k = Some (Inr r, k')"
  shows "total r = length files \<and> length (results r) = length files"
  using sdk_batchDownload_Inr[OF returned]
  by (auto dest!: BatchProcessor_addBatch_length
      simp: operationResult_total operationResult_results operations_from_length)

text \<open>The digits in the ids of the example batches.\<close>

lemma char_of_digits:
  "char_of (48 :: nat) = CHR ''0''"
  "char_of (49 :: nat) = CHR ''1''"
  by (code_simp, code_simp)

text \<open>The definitions unfolded when the model is evaluated on the example inputs.\<close>

lemmas mock_eval =
  batchUploadFiles_def batchDownloadFiles_def uploadFile_def fetchFile_def simulateDelay_def
  upload_params_of_def fetch_params_of_def opt_field_def or_false_def or_string_def
  mock_summary_def file_name_def js_div_def js_times_def
  demo_env_def demo_state_def demo_options_def demo_doptions_def

lemmas sdk_eval =
  sdk_uploadFile_def sdk_downloadFile_def executeWithRateLimit_def cb_execute_def cb_admit_def
  cb_record_def executeWithRetry_def is_ok_def sleep_def emit_def
  upload_begin_def download_begin_def backpressure_check_def track_item_def untrack_item_def
  track_def untrack_def usage_ratio_def totalReserved_def sdk_memory_config_def remove_def
  upload_worker_def download_worker_def sdk_batchUpload_def sdk_batchDownload_def
  upload_addBatch_def download_addBatch_def
  BatchProcessor_addBatch_def sdk_onProgress_def operationResult_def convert_result_def
  or_default_def js_div_def file_name_def
  demo_sdk_def demo_validateFile_def demo_cb_config_def demo_retry_config_def demo_grant_def
  working_attempt_def failing_attempt_def demo_options_def
  demo_doptions_def

text \<open>
  Claim C10. Given an empty list, \<^verbatim>\<open>batchUploadFiles\<close> and \<^verbatim>\<open>batchDownloadFiles\<close> of
  the mock service return a result with \<^verbatim>\<open>total\<close>, \<^verbatim>\<open>successful\<close> and
  \<^verbatim>\<open>failed\<close> 0, \<^verbatim>\<open>successRate\<close> 0, \<^verbatim>\<open>averageDuration\<close> 0 and no results: the
  two quotients are guarded and are the number 0, not the \<^verbatim>\<open>NaN\<close> of a division of
  zero by zero. The service state is left as it was.
\<close>

theorem C10_empty_batch:
  "(\<exists>r. batchUploadFiles e s [] options = (Inr r, s) \<and> total r = 0 \<and> successful r = 0
        \<and> failed r = 0 \<and> successRate r = Num 0 \<and> averageDuration r = Num 0 \<and> results r = [])
   \<and> (\<exists>r. batchDownloadFiles e s [] doptions = (Inr r, s) \<and> total r = 0 \<and> successful r = 0
        \<and> failed r = 0 \<and> successRate r = Num 0 \<and> averageDuration r = Num 0 \<and> results r = [])"
  by (simp add: batchUploadFiles_def batchDownloadFiles_def mock_summary_def)

text \<open>
  Claim C2. The first half holds: a batch method that returns a result returns one entry
  per item (the four lemmas above). The second half holds for the mock service and fails
  for the SDK. A caller of \<^verbatim>\<open>batchUpload\<close> or \<^verbatim>\<open>batchDownload\<close> who sets
  \<^verbatim>\<open>continueOnError\<close> to false, with the endpoint down, is returned a result in which
  every item has failed: the flag only turned the processor's retries off. The processor
  itself, given \<^verbatim>\<open>continueOnError: false\<close>, throws the first item's error, and so
  does the mock service on a missing file; but the SDK never passes that key, so with
  this processor it throws no error of an item, whatever the caller's options.
\<close>

theorem C2_sdk_returns_a_result_when_told_to_stop:
  "(\<exists>r k'. sdk_batchUpload (BatchProcessor_addBatch (\<lambda>err. True)) demo_cb_config demo_retry_config
              demo_grant demo_validateFile (\<lambda>options input. failing_attempt) ''op1'' two_files
              stop_on_error demo_sdk
            = Some (Inr r, k')
       \<and> total r = 2 \<and> successful r = 0 \<and> failed r = 2
       \<and> map item_id (results r) = [''upload_0_/data/a.txt'', ''upload_1_/data/b.txt'']
       \<and> map error (results r) = [Some ''ETIMEDOUT'', Some ''ETIMEDOUT'']
       \<and> map retries (results r) = [0, 0])
   \<and> (\<exists>r k'. sdk_batchDownload (BatchProcessor_addBatch (\<lambda>err. True)) demo_cb_config
              demo_retry_config demo_grant demo_validateFile failing_download ''op2''
              [\<lparr>cid = ''QmA'', outputFileName = None, expectedSize = None\<rparr>] stop_on_derror demo_sdk
            = Some (Inr r, k')
       \<and> total r = 1 \<and> successful r = 0 \<and> failed r = 1
       \<and> map error (results r) = [Some ''ETIMEDOUT''])
   \<and> (\<exists>k'. BatchProcessor_addBatch (\<lambda>err. True)
              (upload_worker demo_cb_config demo_retry_config demo_grant demo_validateFile
                 (\<lambda>input. failing_attempt) ''op1'')
              \<lparr>bo_concurrency = Num 3, retryOnFailure = False, bo_maxRetries = 3,
               bo_continueOnError = Some False, onProgress = sdk_onProgress ''op1'' 2 True\<rparr>
              (operations_from ''upload_'' filePath 0 two_files) demo_sdk
            = Some (Inl (Error ''ETIMEDOUT''), k'))
   \<and> (\<exists>s'. batchUploadFiles demo_env demo_state [''/data/b.txt'', ''/data/a.txt'']
              (Some stop_on_error)
            = (Inl (Error ''File not found: /data/b.txt''), s'))
   \<and> sdk_batchUpload (BatchProcessor_addBatch can_retry) cfg rcfg grant validateFile attempt
         operationId files options s \<noteq> Some (Inl err, s')
   \<and> sdk_batchDownload (BatchProcessor_addBatch can_retry) cfg rcfg grant stat dattempt
         operationId dfiles doptions s \<noteq> Some (Inl err, s')"
proof (intro conjI)
  show "\<exists>r k'. sdk_batchUpload (BatchProcessor_addBatch (\<lambda>err. True)) demo_cb_config demo_retry_config
              demo_grant demo_validateFile (\<lambda>options input. failing_attempt) ''op1'' two_files
              stop_on_error demo_sdk
            = Some (Inr r, k')
       \<and> total r = 2 \<and> successful r = 0 \<and> failed r = 2
       \<and> map item_id (results r) = [''upload_0_/data/a.txt'', ''upload_1_/data/b.txt'']
       \<and> map error (results r) = [Some ''ETIMEDOUT'', Some ''ETIMEDOUT'']
       \<and> map retries (results r) = [0, 0]"
    by (simp add: stop_on_error_def two_files_def sdk_eval Let_def show_nat.simps char_of_digits)
next
  show "\<exists>r k'. sdk_batchDownload (BatchProcessor_addBatch (\<lambda>err. True)) demo_cb_config
              demo_retry_config demo_grant demo_validateFile failing_download ''op2''
              [\<lparr>cid = ''QmA'', outputFileName = None, expectedSize = None\<rparr>] stop_on_derror demo_sdk
            = Some (Inr r, k')
       \<and> total r = 1 \<and> successful r = 0 \<and> failed r = 1
       \<and> map error (results r) = [Some ''ETIMEDOUT'']"
    by (simp add: stop_on_derror_def failing_download_def sdk_eval Let_def show_nat.simps char_of_digits)
next
  show "\<exists>k'. BatchProcessor_addBatch (\<lambda>err. True)
              (upload_worker demo_cb_config demo_retry_config demo_grant demo_validateFile
                 (\<lambda>input. failing_attempt) ''op1'')
              \<lparr>bo_concurrency = Num 3, retryOnFailure = False, bo_maxRetries = 3,
               bo_continueOnError = Some False, onProgress = sdk_onProgress ''op1'' 2 True\<rparr>
              (operations_from ''upload_'' filePath 0 two_files) demo_sdk
            = Some (Inl (Error ''ETIMEDOUT''), k')"
    by (simp add: two_files_def sdk_eval Let_def show_nat.simps char_of_digits)
next
  show "\<exists>s'. batchUploadFiles demo_env demo_state [''/data/b.txt'', ''/data/a.txt'']
              (Some stop_on_error)
            = (Inl (Error ''File not found: /data/b.txt''), s')"
    by (simp add: stop_on_error_def mock_eval Let_def)
next
  have "upload_addBatch (BatchProcessor_addBatch can_retry) cfg rcfg grant validateFile attempt
          operationId files options s \<noteq> Some (Inl e, k)" for e k
    by (simp add: upload_addBatch_def BatchProcessor_addBatch_def Let_def process_items_continues)
  then show "sdk_batchUpload (BatchProcessor_addBatch can_retry) cfg rcfg grant validateFile attempt
      operationId files options s \<noteq> Some (Inl err, s')"
    by (auto simp: sdk_batchUpload_def split: option.splits prod.splits sum.splits)
next
  have "download_addBatch (BatchProcessor_addBatch can_retry) cfg rcfg grant stat dattempt
          operationId dfiles doptions s \<noteq> Some (Inl e, k)" for e k
    by (simp add: download_addBatch_def BatchProcessor_addBatch_def Let_def process_items_continues)
  then show "sdk_batchDownload (BatchProcessor_addBatch can_retry) cfg rcfg grant stat dattempt
      operationId dfiles doptions s \<noteq> Some (Inl err, s')"
    by (auto simp: sdk_batchDownload_def split: option.splits prod.splits sum.splits)
qed

text \<open>
  Claim C1, evaluated. For one file that uploads, the mock service reports a
  \<^verbatim>\<open>successRate\<close> of 100 where \<^verbatim>\<open>successful / total\<close> is 1: the mock multiplies
  the quotient by 100. The SDK's \<^verbatim>\<open>batchUpload\<close> reports the quotient itself, 1, for a
  batch in which every file uploads. In both, \<^verbatim>\<open>successful + failed\<close> is \<^verbatim>\<open>total\<close>.
\<close>

theorem C1_mock_rate_is_a_percentage:
  "(\<exists>r s'. batchUploadFiles demo_env demo_state [''/data/a.txt''] (Some demo_options) = (Inr r, s')
       \<and> total r = 1 \<and> successful r = 1 \<and> failed r = 0
       \<and> js_div (of_nat (successful r)) (of_nat (total r)) = Num 1
       \<and> successRate r = Num 100)
   \<and> (\<exists>r k'. demo_batchUpload two_files = Some (Inr r, k')
       \<and> total r = 2 \<and> successful r = 2 \<and> failed r = 0 \<and> successRate r = Num 1)"
proof (rule conjI)
  show "\<exists>r s'. batchUploadFiles demo_env demo_state [''/data/a.txt''] (Some demo_options) = (Inr r, s')
       \<and> total r = 1 \<and> successful r = 1 \<and> failed r = 0
       \<and> js_div (of_nat (successful r)) (of_nat (total r)) = Num 1
       \<and> successRate r = Num 100"
    by (simp add: mock_eval Let_def)
next
  show "\<exists>r k'. demo_batchUpload two_files = Some (Inr r, k')
       \<and> total r = 2 \<and> successful r = 2 \<and> failed r = 0 \<and> successRate r = Num 1"
    by (simp add: demo_batchUpload_def two_files_def sdk_eval Let_def show_nat.simps)
qed

text \<open>
  Claim C3, evaluated. Called with no options, or with options that leave
  \<^verbatim>\<open>continueOnError\<close> out, the mock service's batch methods throw the error of the
  first item that fails (here the missing file \<^verbatim>\<open>/data/b.txt\<close>, the unknown CID
  \<^verbatim>\<open>QmA\<close>) and return no result; only with \<^verbatim>\<open>continueOnError: true\<close> do they go on
  and report the failure in the result. The SDK and the tools default the flag to
  true.
\<close>

theorem C3_mock_default_rethrows:
  "fst (batchUploadFiles demo_env demo_state [''/data/b.txt'', ''/data/a.txt''] None)
     = Inl (Error ''File not found: /data/b.txt'')
   \<and> fst (batchUploadFiles demo_env demo_state [''/data/b.txt'', ''/data/a.txt'']
            (Some (demo_options\<lparr>continueOnError := None\<rparr>)))
     = Inl (Error ''File not found: /data/b.txt'')
   \<and> fst (batchDownloadFiles demo_env demo_state [''QmA''] None) = Inl (Error ''File not found: QmA'')
   \<and> (\<exists>r s'. batchUploadFiles demo_env demo_state [''/data/b.txt'', ''/data/a.txt'']
                (Some demo_options) = (Inr r, s')
         \<and> total r = 2 \<and> successful r = 1 \<and> failed r = 1)
   \<and> or_default (continueOnError (demo_options\<lparr>continueOnError := None\<rparr>)) True
   \<and> c_continueOnError (upload_call_of (demo_params\<lparr>p_concurrency := Undefined\<rparr>)) = Boolean True"
proof (intro conjI)
  show "fst (batchUploadFiles demo_env demo_state [''/data/b.txt'', ''/data/a.txt''] None)
     = Inl (Error ''File not found: /data/b.txt'')"
    by (simp add: mock_eval Let_def)
  show "fst (batchUploadFiles demo_env demo_state [''/data/b.txt'', ''/data/a.txt'']
            (Some (demo_options\<lparr>continueOnError := None\<rparr>)))
     = Inl (Error ''File not found: /data/b.txt'')"
    by (simp add: mock_eval Let_def)
  show "fst (batchDownloadFiles demo_env demo_state [''QmA''] None) = Inl (Error ''File not found: QmA'')"
    by (simp add: mock_eval Let_def)
  show "\<exists>r s'. batchUploadFiles demo_env demo_state [''/data/b.txt'', ''/data/a.txt'']
                (Some demo_options) = (Inr r, s')
         \<and> total r = 2 \<and> successful r = 1 \<and> failed r = 1"
    by (simp add: mock_eval Let_def)
  show "or_default (continueOnError (demo_options\<lparr>continueOnError := None\<rparr>)) True"
    by (simp add: or_default_def demo_options_def)
  show "c_continueOnError (upload_call_of (demo_params\<lparr>p_concurrency := Undefined\<rparr>)) = Boolean True"
    by (simp add: upload_call_of_def demo_params_def nullish_def)
qed

section \<open>Properties of the batch tools\<close>

text \<open>The checks that come before the concurrency check do not read the concurrency, and
  the checks after it are not reached when it fails: if the parameters are accepted with
  the concurrency left out, then with a concurrency \<open>c\<close> the answer is the one of the
  concurrency check.\<close>

lemma first_error_Cons:
  "first_error (x # xs) = (case x of None \<Rightarrow> first_error xs | Some msg \<Rightarrow> Some msg)"
  by (cases x) simp_all

lemma upload_validateParams_concurrency:
  assumes "upload_validateParams stat (params\<lparr>p_concurrency := Undefined\<rparr>) = None"
  shows "upload_validateParams stat (params\<lparr>p_concurrency := c\<rparr>) = validate_concurrency c"
proof (cases "validate_concurrency c")
  case None
  with assms show ?thesis
    by (auto simp: upload_validateParams_def validate_concurrency_def
        split: option.splits sum.splits prod.splits if_splits)
next
  case (Some msg)
  with assms show ?thesis
    by (auto simp: upload_validateParams_def validate_concurrency_def
        split: option.splits sum.splits prod.splits if_splits)
qed

lemma download_validateParams_concurrency:
  assumes "download_validateParams fs (params\<lparr>pd_concurrency := Undefined\<rparr>) = None"
  shows "download_validateParams fs (params\<lparr>pd_concurrency := c\<rparr>) = validate_concurrency c"
proof (cases "validate_concurrency c")
  case None
  with assms show ?thesis
    by (auto simp: download_validateParams_def validate_concurrency_def Let_def first_error_Cons
        simp del: first_error.simps split: option.splits if_splits)
next
  case (Some msg)
  with assms show ?thesis
    by (auto simp: download_validateParams_def validate_concurrency_def Let_def first_error_Cons
        simp del: first_error.simps split: option.splits if_splits)
qed

lemma validate_concurrency_outside:
  "js_less n 1 \<or> js_greater n 10
     \<Longrightarrow> validate_concurrency (Number n) = Some ''concurrency must be a number between 1 and 10''"
  by (simp add: validate_concurrency_def)

lemma validate_concurrency_inside:
  "1 \<le> q \<Longrightarrow> q \<le> 10 \<Longrightarrow> validate_concurrency (Number (Num q)) = None"
  by (simp add: validate_concurrency_def)

text \<open>
  Claim C6, as amended. The batch tools do not clamp the concurrency: they validate it.
  When the other parameters are acceptable, a numeric concurrency below 1 or above 10
  makes the tool refuse the request with the error
  \<^verbatim>\<open>Invalid parameters: concurrency must be a number between 1 and 10\<close>, the service
  not being called; a number within 1 to 10 is handed to the service unchanged; and
  when the concurrency is omitted the service is called with 3.
\<close>

theorem C6_concurrency_is_validated:
  "(upload_validateParams stat (params\<lparr>p_concurrency := Undefined\<rparr>) = None
      \<and> (js_less n 1 \<or> js_greater n 10)
    \<longrightarrow> upload_execute stat service s (params\<lparr>p_concurrency := Number n\<rparr>)
        = (tool_failure ''Invalid parameters: concurrency must be a number between 1 and 10'', s))
   \<and> (upload_validateParams stat (params\<lparr>p_concurrency := Undefined\<rparr>) = None \<and> 1 \<le> q \<and> q \<le> 10
    \<longrightarrow> upload_execute stat (Some svc) s (params\<lparr>p_concurrency := Number (Num q)\<rparr>)
          = respond ''Batch upload failed: ''
              (svc s (upload_call_of (params\<lparr>p_concurrency := Number (Num q)\<rparr>)))
        \<and> c_concurrency (upload_call_of (params\<lparr>p_concurrency := Number (Num q)\<rparr>)) = Number (Num q))
   \<and> (upload_validateParams stat (params\<lparr>p_concurrency := Undefined\<rparr>) = None
    \<longrightarrow> upload_execute stat (Some svc) s (params\<lparr>p_concurrency := Undefined\<rparr>)
          = respond ''Batch upload failed: ''
              (svc s (upload_call_of (params\<lparr>p_concurrency := Undefined\<rparr>)))
        \<and> c_concurrency (upload_call_of (params\<lparr>p_concurrency := Undefined\<rparr>)) = Number (Num 3))
   \<and> (download_validateParams fs (dparams\<lparr>pd_concurrency := Undefined\<rparr>) = None
      \<and> (js_less n 1 \<or> js_greater n 10)
    \<longrightarrow> download_execute fs dservice t (dparams\<lparr>pd_concurrency := Number n\<rparr>)
        = (tool_failure ''Invalid parameters: concurrency must be a number between 1 and 10'', t))
   \<and> (download_validateParams fs (dparams\<lparr>pd_concurrency := Undefined\<rparr>) = None \<and> 1 \<le> q \<and> q \<le> 10
    \<longrightarrow> download_execute fs (Some dsvc) t (dparams\<lparr>pd_concurrency := Number (Num q)\<rparr>)
          = respond ''Batch download failed: ''
              (dsvc t (download_call_of (dparams\<lparr>pd_concurrency := Number (Num q)\<rparr>)))
        \<and> cd_concurrency (download_call_of (dparams\<lparr>pd_concurrency := Number (Num q)\<rparr>)) = Number (Num q))
   \<and> (download_validateParams fs (dparams\<lparr>pd_concurrency := Undefined\<rparr>) = None
    \<longrightarrow> download_execute fs (Some dsvc) t (dparams\<lparr>pd_concurrency := Undefined\<rparr>)
          = respond ''Batch download failed: ''
              (dsvc t (download_call_of (dparams\<lparr>pd_concurrency := Undefined\<rparr>)))
        \<and> cd_concurrency (download_call_of (dparams\<lparr>pd_concurrency := Undefined\<rparr>)) = Number (Num 3))"
proof (intro conjI impI)
  assume a: "upload_validateParams stat (params\<lparr>p_concurrency := Undefined\<rparr>) = None
      \<and> (js_less n 1 \<or> js_greater n 10)"
  then have "upload_validateParams stat (params\<lparr>p_concurrency := Number n\<rparr>)
      = Some ''concurrency must be a number between 1 and 10''"
    by (simp add: upload_validateParams_concurrency validate_concurrency_outside)
  then show "upload_execute stat service s (params\<lparr>p_concurrency := Number n\<rparr>)
        = (tool_failure ''Invalid parameters: concurrency must be a number between 1 and 10'', s)"
    by (simp add: upload_execute_def)
next
  assume a: "upload_validateParams stat (params\<lparr>p_concurrency := Undefined\<rparr>) = None \<and> 1 \<le> q \<and> q \<le> 10"
  then have "upload_validateParams stat (params\<lparr>p_concurrency := Number (Num q)\<rparr>) = None"
    by (simp add: upload_validateParams_concurrency validate_concurrency_inside)
  then show "upload_execute stat (Some svc) s (params\<lparr>p_concurrency := Number (Num q)\<rparr>)
          = respond ''Batch upload failed: ''
              (svc s (upload_call_of (params\<lparr>p_concurrency := Number (Num q)\<rparr>)))"
    by (simp add: upload_execute_def)
  from a show "c_concurrency (upload_call_of (params\<lparr>p_concurrency := Number (Num q)\<rparr>)) = Number (Num q)"
    by (auto simp: upload_call_of_def js_or_def)
next
  assume "upload_validateParams stat (params\<lparr>p_concurrency := Undefined\<rparr>) = None"
  then show "upload_execute stat (Some svc) s (params\<lparr>p_concurrency := Undefined\<rparr>)
          = respond ''Batch upload failed: ''
              (svc s (upload_call_of (params\<lparr>p_concurrency := Undefined\<rparr>)))"
    by (simp add: upload_execute_def)
  show "c_concurrency (upload_call_of (params\<lparr>p_concurrency := Undefined\<rparr>)) = Number (Num 3)"
    by (simp add: upload_call_of_def js_or_def)
next
  assume a: "download_validateParams fs (dparams\<lparr>pd_concurrency := Undefined\<rparr>) = None
      \<and> (js_less n 1 \<or> js_greater n 10)"
  then have "download_validateParams fs (dparams\<lparr>pd_concurrency := Number n\<rparr>)
      = Some ''concurrency must be a number between 1 and 10''"
    by (simp add: download_validateParams_concurrency validate_concurrency_outside)
  then show "download_execute fs dservice t (dparams\<lparr>pd_concurrency := Number n\<rparr>)
        = (tool_failure ''Invalid parameters: concurrency must be a number between 1 and 10'', t)"
    by (simp add: download_execute_def)
next
  assume a: "download_validateParams fs (dparams\<lparr>pd_concurrency := Undefined\<rparr>) = None \<and> 1 \<le> q \<and> q \<le> 10"
  then have "download_validateParams fs (dparams\<lparr>pd_concurrency := Number (Num q)\<rparr>) = None"
    by (simp add: download_validateParams_concurrency validate_concurrency_inside)
  then show "download_execute fs (Some dsvc) t (dparams\<lparr>pd_concurrency := Number (Num q)\<rparr>)
          = respond ''Batch download failed: ''
              (dsvc t (download_call_of (dparams\<lparr>pd_concurrency := Number (Num q)\<rparr>)))"
    by (simp add: download_execute_def)
  from a show "cd_concurrency (download_call_of (dparams\<lparr>pd_concurrency := Number (Num q)\<rparr>)) = Number (Num q)"
    by (auto simp: download_call_of_def js_or_def)
next
  assume "download_validateParams fs (dparams\<lparr>pd_concurrency := Undefined\<rparr>) = None"
  then show "download_execute fs (Some dsvc) t (dparams\<lparr>pd_concurrency := Undefined\<rparr>)
          = respond ''Batch download failed: ''
              (dsvc t (download_call_of (dparams\<lparr>pd_concurrency := Undefined\<rparr>)))"
    by (simp add: download_execute_def)
  show "cd_concurrency (download_call_of (dparams\<lparr>pd_concurrency := Undefined\<rparr>)) = Number (Num 3)"
    by (simp add: download_call_of_def js_or_def)
qed

lemmas tool_eval =
  upload_validateParams_def download_validateParams_def validate_concurrency_def
  validate_encrypt_def validate_accessConditions_def validate_tags_def validate_outputDir_def
  validate_decrypt_def upload_execute_def download_execute_def upload_call_of_def
  download_call_of_def respond_def tool_failure_def js_or_def nullish_def isValidCID_def
  startsWith_def alnum_def base58_def in_range_def list_some_def
  demo_stat_def demo_params_def demo_dir_env_def demo_dparams_def
  counting_upload_service_def counting_download_service_def empty_result_def

text \<open>
  Claim C6 as stated fails: with a concurrency of 20 and otherwise acceptable parameters
  both tools answer with the validation error and leave the service untouched (the
  counting service has still received no call), instead of going on with 10.
\<close>

theorem C6_concurrency_20_is_refused:
  "upload_execute demo_stat (Some counting_upload_service) 0 demo_params
     = (tool_failure ''Invalid parameters: concurrency must be a number between 1 and 10'', 0)
   \<and> download_execute demo_dir_env (Some counting_download_service) 0 demo_dparams
     = (tool_failure ''Invalid parameters: concurrency must be a number between 1 and 10'', 0)"
  by (simp add: tool_eval Let_def)

theorem C6_concurrency_is_validated_witness:
  "upload_validateParams demo_stat (demo_params\<lparr>p_concurrency := Undefined\<rparr>) = None
   \<and> (js_less (Num 20) 1 \<or> js_greater (Num 20) 10)
   \<and> upload_execute demo_stat (Some counting_upload_service) 0
        (demo_params\<lparr>p_concurrency := Number (Num 20)\<rparr>)
      = (tool_failure ''Invalid parameters: concurrency must be a number between 1 and 10'', 0)
   \<and> (1::rat) \<le> 5 \<and> (5::rat) \<le> 10
   \<and> upload_execute demo_stat (Some counting_upload_service) 0
        (demo_params\<lparr>p_concurrency := Number (Num 5)\<rparr>)
      = respond ''Batch upload failed: ''
          (counting_upload_service 0 (upload_call_of (demo_params\<lparr>p_concurrency := Number (Num 5)\<rparr>)))
   \<and> c_concurrency (upload_call_of (demo_params\<lparr>p_concurrency := Number (Num 5)\<rparr>)) = Number (Num 5)
   \<and> upload_execute demo_stat (Some counting_upload_service) 0
        (demo_params\<lparr>p_concurrency := Undefined\<rparr>)
      = respond ''Batch upload failed: ''
          (counting_upload_service 0 (upload_call_of (demo_params\<lparr>p_concurrency := Undefined\<rparr>)))
   \<and> c_concurrency (upload_call_of (demo_params\<lparr>p_concurrency := Undefined\<rparr>)) = Number (Num 3)
   \<and> download_validateParams demo_dir_env (demo_dparams\<lparr>pd_concurrency := Undefined\<rparr>) = None
   \<and> download_execute demo_dir_env (Some counting_download_service) 0
        (demo_dparams\<lparr>pd_concurrency := Number (Num 20)\<rparr>)
      = (tool_failure ''Invalid parameters: concurrency must be a number between 1 and 10'', 0)
   \<and> download_execute demo_dir_env (Some counting_download_service) 0
        (demo_dparams\<lparr>pd_concurrency := Number (Num 5)\<rparr>)
      = respond ''Batch download failed: ''
          (counting_download_service 0
             (download_call_of (demo_dparams\<lparr>pd_concurrency := Number (Num 5)\<rparr>)))
   \<and> cd_concurrency (download_call_of (demo_dparams\<lparr>pd_concurrency := Number (Num 5)\<rparr>)) = Number (Num 5)
   \<and> download_execute demo_dir_env (Some counting_download_service) 0
        (demo_dparams\<lparr>pd_concurrency := Undefined\<rparr>)
      = respond ''Batch download failed: ''
          (counting_download_service 0
             (download_call_of (demo_dparams\<lparr>pd_concurrency := Undefined\<rparr>)))
   \<and> cd_concurrency (download_call_of (demo_dparams\<lparr>pd_concurrency := Undefined\<rparr>)) = Number (Num 3)"
proof -
  have v: "upload_validateParams demo_stat (demo_params\<lparr>p_concurrency := Undefined\<rparr>) = None"
    by (simp add: tool_eval Let_def)
  have dv: "download_validateParams demo_dir_env (demo_dparams\<lparr>pd_concurrency := Undefined\<rparr>) = None"
    by (simp add: tool_eval Let_def)
  have out: "js_less (Num 20) 1 \<or> js_greater (Num 20) 10"
    by simp
  have inside: "(1::rat) \<le> 5 \<and> (5::rat) \<le> 10"
    by simp
  note inst = C6_concurrency_is_validated[where stat = demo_stat and params = demo_params
      and n = "Num 20" and q = 5 and service = "Some counting_upload_service"
      and svc = counting_upload_service and s = "0::nat" and fs = demo_dir_env
      and dparams = demo_dparams and dservice = "Some counting_download_service"
      and dsvc = counting_download_service and t = "0::nat"]
  from inst[THEN conjunct1, rule_format, OF conjI[OF v out]]
  have c1: "upload_execute demo_stat (Some counting_upload_service) 0
        (demo_params\<lparr>p_concurrency := Number (Num 20)\<rparr>)
      = (tool_failure ''Invalid parameters: concurrency must be a number between 1 and 10'', 0)" .
  from inst[THEN conjunct2, THEN conjunct1, rule_format, OF conjI[OF v inside]]
  have c2: "upload_execute demo_stat (Some counting_upload_service) 0
        (demo_params\<lparr>p_concurrency := Number (Num 5)\<rparr>)
      = respond ''Batch upload failed: ''
          (counting_upload_service 0 (upload_call_of (demo_params\<lparr>p_concurrency := Number (Num 5)\<rparr>)))
   \<and> c_concurrency (upload_call_of (demo_params\<lparr>p_concurrency := Number (Num 5)\<rparr>)) = Number (Num 5)" .
  from inst[THEN conjunct2, THEN conjunct2, THEN conjunct1, rule_format, OF v]
  have c3: "upload_execute demo_stat (Some counting_upload_service) 0
        (demo_params\<lparr>p_concurrency := Undefined\<rparr>)
      = respond ''Batch upload failed: ''
          (counting_upload_service 0 (upload_call_of (demo_params\<lparr>p_concurrency := Undefined\<rparr>)))
   \<and> c_concurrency (upload_call_of (demo_params\<lparr>p_concurrency := Undefined\<rparr>)) = Number (Num 3)" .
  from inst[THEN conjunct2, THEN conjunct2, THEN conjunct2, THEN conjunct1, rule_format,
      OF conjI[OF dv out]]
  have c4: "download_execute demo_dir_env (Some counting_download_service) 0
        (demo_dparams\<lparr>pd_concurrency := Number (Num 20)\<rparr>)
      = (tool_failure ''Invalid parameters: concurrency must be a number between 1 and 10'', 0)" .
  from inst[THEN conjunct2, THEN conjunct2, THEN conjunct2, THEN conjunct2, THEN conjunct1,
      rule_format, OF conjI[OF dv inside]]
  have c5: "download_execute demo_dir_env (Some counting_download_service) 0
        (demo_dparams\<lparr>pd_concurrency := Number (Num 5)\<rparr>)
      = respond ''Batch download failed: ''
          (counting_download_service 0
             (download_call_of (demo_dparams\<lparr>pd_concurrency := Number (Num 5)\<rparr>)))
   \<and> cd_concurrency (download_call_of (demo_dparams\<lparr>pd_concurrency := Number (Num 5)\<rparr>)) = Number (Num 5)" .
  from inst[THEN conjunct2, THEN conjunct2, THEN conjunct2, THEN conjunct2, THEN conjunct2,
      rule_format, OF dv]
  have c6: "download_execute demo_dir_env (Some counting_download_service) 0
        (demo_dparams\<lparr>pd_concurrency := Undefined\<rparr>)
      = respond ''Batch download failed: ''
          (counting_download_service 0
             (download_call_of (demo_dparams\<lparr>pd_concurrency := Undefined\<rparr>)))
   \<and> cd_concurrency (download_call_of (demo_dparams\<lparr>pd_concurrency := Undefined\<rparr>)) = Number (Num 3)" .
  from v dv out inside c1 c2 c3 c4 c5 c6 show ?thesis
    by blast
qed

section \<open>Properties of the SDK's operations\<close>

text \<open>The retry loop touches the handler's metrics and the outside only: the circuit
  breaker, the memory manager and the event log are as before, and between one and
  \<open>left + 1\<close> attempts are made.\<close>

lemma retry_from_frame:
  "retry_from rcfg fn made left s = (res, s')
     \<Longrightarrow> breaker s' = breaker s \<and> memory s' = memory s \<and> emitted s' = emitted s
         \<and> attempts s < attempts s' \<and> attempts s' \<le> attempts s + left + 1"
proof (induction left arbitrary: made s)
  case 0
  then show ?case
    by (auto split: prod.splits sum.splits)
next
  case (Suc left)
  show ?case
  proof (cases "fn (outside s)")
    case (Pair out w)
    show ?thesis
    proof (cases out)
      case (Inr v)
      with Pair Suc.prems show ?thesis by auto
    next
      case (Inl err)
      show ?thesis
      proof (cases "retryable rcfg err")
        case False
        with Inl Pair Suc.prems show ?thesis by auto
      next
        case True
        with Inl Pair Suc.prems
        have "retry_from rcfg fn (Suc made) left
                (s\<lparr>attempts := attempts s + 1,
                   outside := sleep (min (maxDelay rcfg) (baseDelay rcfg * 2 ^ made)) w\<rparr>)
              = (res, s')"
          by simp
        from Suc.IH[OF this] show ?thesis by simp
      qed
    qed
  qed
qed

lemma executeWithRetry_frame:
  "executeWithRetry rcfg fn s = (res, s')
     \<Longrightarrow> breaker s' = breaker s \<and> memory s' = memory s \<and> emitted s' = emitted s
         \<and> attempts s < attempts s' \<and> attempts s' \<le> attempts s + r_maxRetries rcfg + 1"
  unfolding executeWithRetry_def by (rule retry_from_frame)

lemma cb_admit_Rejected: "cb_admit cfg t b = (Rejected, b') \<Longrightarrow> b' = b"
  by (auto simp: cb_admit_def split: circuit_state.splits if_splits)

lemma cb_call_failureCount: "failureCount (cb_call cfg (arrives, ends, ok) b) \<le> failureCount b + 1"
  by (auto simp: cb_admit_def cb_record_def split: circuit_state.splits)

text \<open>One operation under the breaker: the breaker decides once, when the operation
  arrives, and records once, when the whole of \<open>fn\<close> has ended.\<close>

lemma cb_execute_one_call:
  assumes "\<And>s1 res s2. fn s1 = (res, s2) \<Longrightarrow> breaker s2 = breaker s1"
    and "cb_execute cfg fn s = (res, s')"
  shows "breaker s' = cb_call cfg (clock (outside s), clock (outside s'), is_ok res) (breaker s)"
proof (cases "cb_admit cfg (clock (outside s)) (breaker s)")
  case (Pair a b)
  show ?thesis
  proof (cases "a = Rejected")
    case True
    with Pair assms(2) show ?thesis
      by (auto simp: cb_execute_def emit_def cb_record_def dest: cb_admit_Rejected)
  next
    case False
    obtain out s2 where run: "fn (s\<lparr>breaker := b\<rparr>) = (out, s2)"
      by (cases "fn (s\<lparr>breaker := b\<rparr>)")
    from assms(1)[OF run] have kept: "breaker s2 = b" by simp
    from False Pair run assms(2)
    have "res = out" and "s' = s2\<lparr>breaker := cb_record cfg a (is_ok out) (clock (outside s2)) (breaker s2)\<rparr>"
      by (cases a; simp add: cb_execute_def)+
    with Pair kept show ?thesis by simp
  qed
qed

lemma cb_execute_memory:
  assumes "\<And>s1 res s2. fn s1 = (res, s2) \<Longrightarrow> memory s2 = memory s1"
    and "cb_execute cfg fn s = (res, s')"
  shows "memory s' = memory s"
proof (cases "cb_admit cfg (clock (outside s)) (breaker s)")
  case (Pair a b)
  obtain out s2 where run: "fn (s\<lparr>breaker := b\<rparr>) = (out, s2)"
    by (cases "fn (s\<lparr>breaker := b\<rparr>)")
  from assms(1)[OF run] have "memory s2 = memory s" by simp
  with Pair run assms(2) show ?thesis
    by (cases a; auto simp: cb_execute_def emit_def)
qed

lemma cb_execute_attempts:
  assumes "\<And>s1 res s2. fn s1 = (res, s2) \<Longrightarrow> attempts s2 \<le> attempts s1 + n"
    and "cb_execute cfg fn s = (res, s')"
  shows "attempts s' \<le> attempts s + n"
proof (cases "cb_admit cfg (clock (outside s)) (breaker s)")
  case (Pair a b)
  obtain out s2 where run: "fn (s\<lparr>breaker := b\<rparr>) = (out, s2)"
    by (cases "fn (s\<lparr>breaker := b\<rparr>)")
  from assms(1)[OF run] have "attempts s2 \<le> attempts s + n" by simp
  with Pair run assms(2) show ?thesis
    by (cases a; auto simp: cb_execute_def emit_def)
qed

lemma sdk_uploadFile_memory:
  "sdk_uploadFile cfg rcfg grant attempt s = Some (res, s') \<Longrightarrow> memory s' = memory s"
proof -
  assume a: "sdk_uploadFile cfg rcfg grant attempt s = Some (res, s')"
  then obtain w where w: "grant (outside s) = Some w"
    and run: "cb_execute cfg (\<lambda>s1. executeWithRetry rcfg attempt s1) (s\<lparr>outside := w\<rparr>) = (res, s')"
    by (auto simp: sdk_uploadFile_def executeWithRateLimit_def split: option.splits)
  have "memory s' = memory (s\<lparr>outside := w\<rparr>)"
    by (rule cb_execute_memory[OF _ run]) (simp add: executeWithRetry_frame)
  then show ?thesis by simp
qed

lemma sdk_downloadFile_memory:
  "sdk_downloadFile cfg rcfg grant attempt s = Some (res, s') \<Longrightarrow> memory s' = memory s"
proof -
  assume a: "sdk_downloadFile cfg rcfg grant attempt s = Some (res, s')"
  then obtain w where w: "grant (outside s) = Some w"
    and run: "cb_execute cfg (\<lambda>s1. executeWithRetry rcfg attempt s1) (s\<lparr>outside := w\<rparr>) = (res, s')"
    by (auto simp: sdk_downloadFile_def executeWithRateLimit_def split: option.splits)
  have "memory s' = memory (s\<lparr>outside := w\<rparr>)"
    by (rule cb_execute_memory[OF _ run]) (simp add: executeWithRetry_frame)
  then show ?thesis by simp
qed

text \<open>
  Claim C4, as amended. During an SDK operation such as \<^verbatim>\<open>uploadFile\<close> the shared
  circuit breaker sees one call, which contains the whole retry loop: once the rate
  limiter has granted a token the operation returns, and the breaker afterwards is the
  breaker before with exactly one call recorded, the one that arrived when the operation
  started and ended, with the operation's final outcome, when the retry executor
  returned. Its failure counter has grown by at most one, although up to
  \<^verbatim>\<open>maxRetries + 1\<close> attempts were made.
\<close>

theorem C4_breaker_sees_one_call:
  assumes "grant (outside s) = Some w"
  shows "\<exists>res s'. sdk_uploadFile cfg rcfg grant attempt s = Some (res, s')
           \<and> breaker s' = cb_call cfg (clock w, clock (outside s'), is_ok res) (breaker s)
           \<and> failureCount (breaker s') \<le> failureCount (breaker s) + 1
           \<and> attempts s' \<le> attempts s + (r_maxRetries rcfg + 1)"
proof -
  obtain res s' where run:
    "cb_execute cfg (\<lambda>s1. executeWithRetry rcfg attempt s1) (s\<lparr>outside := w\<rparr>) = (res, s')"
    by (cases "cb_execute cfg (\<lambda>s1. executeWithRetry rcfg attempt s1) (s\<lparr>outside := w\<rparr>)")
  with assms have returned: "sdk_uploadFile cfg rcfg grant attempt s = Some (res, s')"
    by (simp add: sdk_uploadFile_def executeWithRateLimit_def)
  have "breaker s' = cb_call cfg (clock (outside (s\<lparr>outside := w\<rparr>)), clock (outside s'), is_ok res)
                       (breaker (s\<lparr>outside := w\<rparr>))"
    by (rule cb_execute_one_call[OF _ run]) (simp add: executeWithRetry_frame)
  then have one: "breaker s' = cb_call cfg (clock w, clock (outside s'), is_ok res) (breaker s)"
    by simp
  have count: "failureCount (breaker s') \<le> failureCount (breaker s) + 1"
    unfolding one by (rule cb_call_failureCount)
  have "attempts s' \<le> attempts (s\<lparr>outside := w\<rparr>) + (r_maxRetries rcfg + 1)"
    by (rule cb_execute_attempts[OF _ run]) (use executeWithRetry_frame in fastforce)
  then have tries: "attempts s' \<le> attempts s + (r_maxRetries rcfg + 1)"
    by simp
  from returned one count tries show ?thesis by blast
qed

text \<open>
  Claim C4 as stated fails. The endpoint is down and every attempt times out; the
  breaker opens after three failures and the handler retries three times. The SDK makes
  all four attempts and its breaker, having seen one failed call, stays closed with a
  failure count of 1. With each attempt passing through the breaker, the three failures
  would have opened it and the fourth attempt would have been rejected unmade.
\<close>

theorem C4_four_attempts_one_failure:
  "map_option (\<lambda>(res, s'). (res, attempts s', state (breaker s'), failureCount (breaker s')))
     (sdk_uploadFile demo_cb_config demo_retry_config demo_grant failing_attempt demo_sdk)
     = Some (Inl (Error ''ETIMEDOUT''), 4, CLOSED, 1)
   \<and> map_option (\<lambda>(res, s'). (res, attempts s', state (breaker s'), failureCount (breaker s')))
       (spec_uploadFile demo_cb_config demo_retry_config demo_grant failing_attempt demo_sdk)
     = Some (Inl (Error ''Circuit breaker is open''), 3, OPEN, 3)"
  by (simp add: sdk_eval spec_uploadFile_def)

theorem C4_breaker_sees_one_call_witness:
  "demo_grant (outside demo_sdk) = Some (outside demo_sdk)
   \<and> (\<exists>res s'. sdk_uploadFile demo_cb_config demo_retry_config demo_grant failing_attempt demo_sdk
                 = Some (res, s')
           \<and> breaker s'
               = cb_call demo_cb_config (clock (outside demo_sdk), clock (outside s'), is_ok res)
                   (breaker demo_sdk)
           \<and> failureCount (breaker s') \<le> failureCount (breaker demo_sdk) + 1
           \<and> attempts s' \<le> attempts demo_sdk + (r_maxRetries demo_retry_config + 1))"
proof -
  have granted: "demo_grant (outside demo_sdk) = Some (outside demo_sdk)"
    by (simp add: demo_grant_def)
  from C4_breaker_sees_one_call[where grant = demo_grant and s = demo_sdk
      and w = "outside demo_sdk" and cfg = demo_cb_config and rcfg = demo_retry_config
      and attempt = failing_attempt, OF granted]
  have "\<exists>res s'. sdk_uploadFile demo_cb_config demo_retry_config demo_grant failing_attempt demo_sdk
                 = Some (res, s')
           \<and> breaker s'
               = cb_call demo_cb_config (clock (outside demo_sdk), clock (outside s'), is_ok res)
                   (breaker demo_sdk)
           \<and> failureCount (breaker s') \<le> failureCount (breaker demo_sdk) + 1
           \<and> attempts s' \<le> attempts demo_sdk + (r_maxRetries demo_retry_config + 1)" .
  with granted show ?thesis by (rule conjI)
qed

text \<open>
  Claim C5, evaluated. Two files are uploaded and both uploads succeed. The caller's
  \<^verbatim>\<open>onProgress\<close> is called once per completed item, with \<^verbatim>\<open>(1, 2, 1)\<close> and then
  \<^verbatim>\<open>(2, 2, 0)\<close>: the third argument is \<^verbatim>\<open>total - completed\<close>, the number of items
  not yet completed, so the first call reports one failure although no item failed
  (the result has \<^verbatim>\<open>failed = 0\<close>). When the endpoint is down and the only file of a
  batch fails for good, the callback is called with \<^verbatim>\<open>(1, 1, 0)\<close>: no failure is
  reported although the item failed.
\<close>

theorem C5_failures_is_total_minus_completed:
  "(\<exists>r k'. demo_batchUpload two_files = Some (Inr r, k')
     \<and> successful r = 2 \<and> failed r = 0
     \<and> user_progress (emitted k') = [(1, 2, 1), (2, 2, 0)])
   \<and> (\<exists>r k'. demo_failing_batchUpload [\<lparr>filePath = ''/data/a.txt'', fileName = None\<rparr>]
           = Some (Inr r, k')
     \<and> successful r = 0 \<and> failed r = 1
     \<and> user_progress (emitted k') = [(1, 1, 0)])"
proof (rule conjI)
  show "\<exists>r k'. demo_batchUpload two_files = Some (Inr r, k')
     \<and> successful r = 2 \<and> failed r = 0
     \<and> user_progress (emitted k') = [(1, 2, 1), (2, 2, 0)]"
    by (simp add: demo_batchUpload_def two_files_def sdk_eval Let_def show_nat.simps)
next
  show "\<exists>r k'. demo_failing_batchUpload [\<lparr>filePath = ''/data/a.txt'', fileName = None\<rparr>]
           = Some (Inr r, k')
     \<and> successful r = 0 \<and> failed r = 1
     \<and> user_progress (emitted k') = [(1, 1, 0)]"
    by (simp add: demo_failing_batchUpload_def sdk_eval Let_def show_nat.simps)
qed

section \<open>The memory reservations of a batch\<close>

text \<open>
  Claim C7. The worker tracks before its \<^verbatim>\<open>try\<close> and untracks in the
  \<^verbatim>\<open>finally\<close>, under the id \<^verbatim>\<open>upload_${operationId}_${filePath}\<close>. The id has
  no part that tells two items of one batch apart (the operation ids of the same items
  carry the index), so in a batch that names a file twice both items reserve under one
  id. Item 0 has started and holds the reservation; item 1 starts, tracks the same id,
  its transfer fails and its \<^verbatim>\<open>finally\<close> untracks: the reservation that was there
  before item 1 started is gone while item 0 is still uploading, and the
  \<^verbatim>\<open>untrack\<close> of item 0 later finds nothing to remove. With two different files
  the same schedule leaves item 0's reservation in place.
\<close>

theorem C7_shared_id_is_released_early:
  "map op_id (operations_from ''upload_'' filePath 0 twice)
     = [''upload_0_/data/a.txt'', ''upload_1_/data/a.txt'']
   \<and> fst (upload_begin demo_validateFile ''op1'' (twice ! 0) demo_sdk)
       = Inr ''upload_op1_/data/a.txt''
   \<and> fst (upload_begin demo_validateFile ''op1'' (twice ! 1)
             (run_schedule demo_validateFile ''op1'' twice [Start 0] demo_sdk))
       = Inr ''upload_op1_/data/a.txt''
   \<and> allocations (memory (run_schedule demo_validateFile ''op1'' twice [Start 0] demo_sdk))
       = [(''upload_op1_/data/a.txt'', 10)]
   \<and> allocations (memory (run_schedule demo_validateFile ''op1'' twice [Start 0, Start 1] demo_sdk))
       = [(''upload_op1_/data/a.txt'', 10)]
   \<and> (\<exists>s'. upload_worker demo_cb_config demo_retry_config demo_grant demo_validateFile
              (\<lambda>input. failing_attempt) ''op1'' (twice ! 1)
              (run_schedule demo_validateFile ''op1'' twice [Start 0] demo_sdk)
            = Some (Inl (Error ''ETIMEDOUT''), s')
          \<and> allocations (memory s') = [])
   \<and> allocations (memory (run_schedule demo_validateFile ''op1'' twice
                             [Start 0, Start 1, Finish 1] demo_sdk))
       = []
   \<and> allocations (memory (run_schedule demo_validateFile ''op1'' twice
                             [Start 0, Start 1, Finish 1, Finish 0] demo_sdk))
       = []
   \<and> allocations (memory (run_schedule demo_validateFile ''op1'' two_files
                             [Start 0, Start 1, Finish 1] demo_sdk))
       = [(''upload_op1_/data/a.txt'', 10)]"
proof (intro conjI)
  show "map op_id (operations_from ''upload_'' filePath 0 twice)
     = [''upload_0_/data/a.txt'', ''upload_1_/data/a.txt'']"
    by (simp add: twice_def show_nat.simps char_of_digits)
next
  show "fst (upload_begin demo_validateFile ''op1'' (twice ! 0) demo_sdk)
       = Inr ''upload_op1_/data/a.txt''"
    by (simp add: sdk_eval twice_def Let_def)
next
  show "fst (upload_begin demo_validateFile ''op1'' (twice ! 1)
             (run_schedule demo_validateFile ''op1'' twice [Start 0] demo_sdk))
       = Inr ''upload_op1_/data/a.txt''"
    by (simp add: sdk_eval twice_def Let_def)
next
  show "allocations (memory (run_schedule demo_validateFile ''op1'' twice [Start 0] demo_sdk))
       = [(''upload_op1_/data/a.txt'', 10)]"
    by (simp add: sdk_eval twice_def Let_def)
next
  show "allocations (memory (run_schedule demo_validateFile ''op1'' twice [Start 0, Start 1] demo_sdk))
       = [(''upload_op1_/data/a.txt'', 10)]"
    by (simp add: sdk_eval twice_def Let_def)
next
  show "\<exists>s'. upload_worker demo_cb_config demo_retry_config demo_grant demo_validateFile
              (\<lambda>input. failing_attempt) ''op1'' (twice ! 1)
              (run_schedule demo_validateFile ''op1'' twice [Start 0] demo_sdk)
            = Some (Inl (Error ''ETIMEDOUT''), s')
          \<and> allocations (memory s') = []"
    by (simp add: sdk_eval twice_def Let_def)
next
  show "allocations (memory (run_schedule demo_validateFile ''op1'' twice
                             [Start 0, Start 1, Finish 1] demo_sdk))
       = []"
    by (simp add: sdk_eval twice_def Let_def)
next
  show "allocations (memory (run_schedule demo_validateFile ''op1'' twice
                             [Start 0, Start 1, Finish 1, Finish 0] demo_sdk))
       = []"
    by (simp add: sdk_eval twice_def Let_def)
next
  show "allocations (memory (run_schedule demo_validateFile ''op1'' two_files
                             [Start 0, Start 1, Finish 1] demo_sdk))
       = [(''upload_op1_/data/a.txt'', 10)]"
    by (simp add: sdk_eval two_files_def Let_def)
qed

section \<open>Properties of the circuit breaker\<close>

text \<open>Failures in a row on a closed circuit open it when the counter reaches the
  threshold, at the time the last of them ended.\<close>

lemma cb_calls_open:
  "state b = CLOSED \<Longrightarrow> calls \<noteq> [] \<Longrightarrow> failureCount b + length calls = failureThreshold cfg
     \<Longrightarrow> list_all (\<lambda>c. \<not> snd (snd c)) calls
     \<Longrightarrow> state (cb_calls cfg calls b) = OPEN
         \<and> openedAt (cb_calls cfg calls b) = fst (snd (last calls))"
proof (induction calls arbitrary: b)
  case Nil
  then show ?case by simp
next
  case (Cons c cs)
  obtain arrives ends ok where c: "c = (arrives, ends, ok)"
    by (cases c)
  with Cons.prems have failed: "\<not> ok" by simp
  show ?case
  proof (cases "cs = []")
    case True
    with Cons.prems c failed show ?thesis
      by (simp add: cb_admit_def cb_record_def)
  next
    case False
    with Cons.prems have below: "failureCount b + 1 < failureThreshold cfg"
      by (cases cs) auto
    let ?b1 = "cb_call cfg c b"
    from Cons.prems c failed below
    have b1: "state ?b1 = CLOSED" "failureCount ?b1 = failureCount b + 1"
      by (simp_all add: cb_admit_def cb_record_def)
    with Cons.prems have "failureCount ?b1 + length cs = failureThreshold cfg"
      by simp
    from Cons.IH[OF b1(1) False this] Cons.prems False show ?thesis
      by simp
  qed
qed

text \<open>
  Claim C8. A closed circuit breaker that sees \<^verbatim>\<open>failureThreshold\<close> failures in a row
  opens. While it is open and \<^verbatim>\<open>resetTimeout\<close> has not elapsed since it opened, a
  call is rejected at once with the circuit-open error and the wrapped function is not
  invoked (the outcome does not depend on it and only the blocked event is added to the
  state). Once \<^verbatim>\<open>resetTimeout\<close> has elapsed the next call is let through as the probe
  and the breaker is half-open; every call arriving while the probe is in flight is
  rejected; the probe's success closes the circuit, its failure re-opens it from the
  time of the failure.
\<close>

theorem C8_circuit_breaker:
  "(state b = CLOSED \<and> failureCount b = 0 \<and> 0 < failureThreshold cfg
      \<and> length calls = failureThreshold cfg \<and> list_all (\<lambda>c. \<not> snd (snd c)) calls
     \<longrightarrow> state (cb_calls cfg calls b) = OPEN
         \<and> openedAt (cb_calls cfg calls b) = fst (snd (last calls)))
   \<and> (state (breaker s) = OPEN \<and> clock (outside s) - openedAt (breaker s) < resetTimeout cfg
     \<longrightarrow> cb_execute cfg fn s = (Inl (Error ''Circuit breaker is open''), emit CircuitBlocked s))
   \<and> (state b = OPEN \<and> resetTimeout cfg \<le> t - openedAt b
     \<longrightarrow> cb_admit cfg t b = (Probe, b\<lparr>state := HALF_OPEN\<rparr>)
         \<and> fst (cb_admit cfg arrival (b\<lparr>state := HALF_OPEN\<rparr>)) = Rejected
         \<and> state (cb_record cfg Probe True ended (b\<lparr>state := HALF_OPEN\<rparr>)) = CLOSED
         \<and> state (cb_record cfg Probe False ended (b\<lparr>state := HALF_OPEN\<rparr>)) = OPEN
         \<and> openedAt (cb_record cfg Probe False ended (b\<lparr>state := HALF_OPEN\<rparr>)) = ended)"
proof (intro conjI impI)
  assume a: "state b = CLOSED \<and> failureCount b = 0 \<and> 0 < failureThreshold cfg
      \<and> length calls = failureThreshold cfg \<and> list_all (\<lambda>c. \<not> snd (snd c)) calls"
  then have "calls \<noteq> []" by auto
  with a have "state (cb_calls cfg calls b) = OPEN
         \<and> openedAt (cb_calls cfg calls b) = fst (snd (last calls))"
    by (intro cb_calls_open) simp_all
  then show "state (cb_calls cfg calls b) = OPEN"
    and "openedAt (cb_calls cfg calls b) = fst (snd (last calls))"
    by simp_all
next
  assume "state (breaker s) = OPEN \<and> clock (outside s) - openedAt (breaker s) < resetTimeout cfg"
  then show "cb_execute cfg fn s = (Inl (Error ''Circuit breaker is open''), emit CircuitBlocked s)"
    by (simp add: cb_execute_def cb_admit_def)
next
  assume a: "state b = OPEN \<and> resetTimeout cfg \<le> t - openedAt b"
  then show "cb_admit cfg t b = (Probe, b\<lparr>state := HALF_OPEN\<rparr>)"
    by (simp add: cb_admit_def)
  show "fst (cb_admit cfg arrival (b\<lparr>state := HALF_OPEN\<rparr>)) = Rejected"
    by (simp add: cb_admit_def)
  show "state (cb_record cfg Probe True ended (b\<lparr>state := HALF_OPEN\<rparr>)) = CLOSED"
    by (simp add: cb_record_def)
  show "state (cb_record cfg Probe False ended (b\<lparr>state := HALF_OPEN\<rparr>)) = OPEN"
    by (simp add: cb_record_def)
  show "openedAt (cb_record cfg Probe False ended (b\<lparr>state := HALF_OPEN\<rparr>)) = ended"
    by (simp add: cb_record_def)
qed

theorem C8_circuit_breaker_witness:
  "state (breaker demo_sdk) = CLOSED \<and> failureCount (breaker demo_sdk) = 0
   \<and> 0 < failureThreshold demo_cb_config
   \<and> length three_failures = failureThreshold demo_cb_config
   \<and> list_all (\<lambda>c. \<not> snd (snd c)) three_failures
   \<and> state (cb_calls demo_cb_config three_failures (breaker demo_sdk)) = OPEN
   \<and> openedAt (cb_calls demo_cb_config three_failures (breaker demo_sdk)) = fst (snd (last three_failures))
   \<and> state (breaker (tripped_sdk 1000)) = OPEN
   \<and> clock (outside (tripped_sdk 1000)) - openedAt (breaker (tripped_sdk 1000)) < resetTimeout demo_cb_config
   \<and> cb_execute demo_cb_config (\<lambda>s. executeWithRetry demo_retry_config failing_attempt s) (tripped_sdk 1000)
       = (Inl (Error ''Circuit breaker is open''), emit CircuitBlocked (tripped_sdk 1000))
   \<and> state opened_breaker = OPEN \<and> resetTimeout demo_cb_config \<le> 60300 - openedAt opened_breaker
   \<and> cb_admit demo_cb_config 60300 opened_breaker = (Probe, opened_breaker\<lparr>state := HALF_OPEN\<rparr>)
   \<and> fst (cb_admit demo_cb_config 60301 (opened_breaker\<lparr>state := HALF_OPEN\<rparr>)) = Rejected
   \<and> state (cb_record demo_cb_config Probe True 60400 (opened_breaker\<lparr>state := HALF_OPEN\<rparr>)) = CLOSED
   \<and> state (cb_record demo_cb_config Probe False 60400 (opened_breaker\<lparr>state := HALF_OPEN\<rparr>)) = OPEN
   \<and> openedAt (cb_record demo_cb_config Probe False 60400 (opened_breaker\<lparr>state := HALF_OPEN\<rparr>)) = 60400"
proof -
  have h1: "state (breaker demo_sdk) = CLOSED \<and> failureCount (breaker demo_sdk) = 0
      \<and> 0 < failureThreshold demo_cb_config
      \<and> length three_failures = failureThreshold demo_cb_config
      \<and> list_all (\<lambda>c. \<not> snd (snd c)) three_failures"
    by (simp add: demo_sdk_def demo_cb_config_def three_failures_def)
  have h2: "state (breaker (tripped_sdk 1000)) = OPEN
      \<and> clock (outside (tripped_sdk 1000)) - openedAt (breaker (tripped_sdk 1000))
          < resetTimeout demo_cb_config"
    by (simp add: tripped_sdk_def opened_breaker_def demo_cb_config_def)
  have h3: "state opened_breaker = OPEN \<and> resetTimeout demo_cb_config \<le> 60300 - openedAt opened_breaker"
    by (simp add: opened_breaker_def demo_cb_config_def)
  note inst = C8_circuit_breaker[where cfg = demo_cb_config and calls = three_failures
      and s = "tripped_sdk 1000"
      and fn = "\<lambda>s. executeWithRetry demo_retry_config failing_attempt s"
      and t = 60300 and arrival = 60301 and ended = 60400]
  from inst[where b = "breaker demo_sdk", THEN conjunct1, rule_format, OF h1]
    inst[where b = opened_breaker, THEN conjunct2, THEN conjunct1, rule_format, OF h2]
    inst[where b = opened_breaker, THEN conjunct2, THEN conjunct2, rule_format, OF h3]
    h1 h2 h3
  show ?thesis
    by blast
qed

section \<open>Properties of the connection pool\<close>

text \<open>
  Claim C9. \<^verbatim>\<open>ConnectionPool.acquire\<close> returns an idle connection if one exists,
  creating none; otherwise, if the pool holds fewer than \<^verbatim>\<open>maxConnections\<close>
  connections, it creates one and returns it; otherwise it puts the request at the end
  of the wait queue, with a deadline at most the acquire timeout away. A queued request
  at the head of the queue is resolved by the release of an active connection, which it
  receives; a request still queued at its deadline is rejected with the timeout error and
  its entry is removed from the queue, the other entries staying.
\<close>

theorem C9_acquire:
  "(idle p = c # rest
     \<longrightarrow> acquire cfg t p = (Connection c, p\<lparr>idle := rest, active := active p @ [c]\<rparr>))
   \<and> (idle p = [] \<and> totalConnections p < maxConnections cfg
     \<longrightarrow> fst (acquire cfg t p) = Connection (created p)
         \<and> totalConnections (snd (acquire cfg t p)) = totalConnections p + 1
         \<and> queue (snd (acquire cfg t p)) = queue p)
   \<and> (idle p = [] \<and> maxConnections cfg \<le> totalConnections p \<and> 0 \<le> acquireTimeout cfg
     \<longrightarrow> fst (acquire cfg t p) = Enqueued (waiters p)
         \<and> totalConnections (snd (acquire cfg t p)) = totalConnections p
         \<and> (\<exists>d. queue (snd (acquire cfg t p)) = queue p @ [\<lparr>waiter_id = waiters p, deadline = d\<rparr>]
                \<and> t \<le> d \<and> d \<le> t + acquireTimeout cfg))
   \<and> (queue p = w # ws \<and> conn \<in> set (active p)
     \<longrightarrow> release conn p = (Some (waiter_id w), p\<lparr>queue := ws\<rparr>))
   \<and> (x \<in> set (queue p) \<and> deadline x \<le> t
     \<longrightarrow> fst (time_out (waiter_id x) t p) = Some (Error ''Connection acquire timeout'')
         \<and> queue (snd (time_out (waiter_id x) t p))
             = filter (\<lambda>y. waiter_id y \<noteq> waiter_id x) (queue p)
         \<and> x \<notin> set (queue (snd (time_out (waiter_id x) t p))))"
proof (intro conjI impI)
  assume "idle p = c # rest"
  then show "acquire cfg t p = (Connection c, p\<lparr>idle := rest, active := active p @ [c]\<rparr>)"
    by (simp add: acquire_def)
next
  assume a: "idle p = [] \<and> totalConnections p < maxConnections cfg"
  then show "fst (acquire cfg t p) = Connection (created p)"
    by (auto simp: acquire_def totalConnections_def)
  from a show "totalConnections (snd (acquire cfg t p)) = totalConnections p + 1"
    by (auto simp: acquire_def totalConnections_def)
  from a show "queue (snd (acquire cfg t p)) = queue p"
    by (auto simp: acquire_def totalConnections_def)
next
  assume a: "idle p = [] \<and> maxConnections cfg \<le> totalConnections p \<and> 0 \<le> acquireTimeout cfg"
  then show "fst (acquire cfg t p) = Enqueued (waiters p)"
    by (auto simp: acquire_def totalConnections_def)
  from a show "totalConnections (snd (acquire cfg t p)) = totalConnections p"
    by (auto simp: acquire_def totalConnections_def)
  from a show "\<exists>d. queue (snd (acquire cfg t p)) = queue p @ [\<lparr>waiter_id = waiters p, deadline = d\<rparr>]
                \<and> t \<le> d \<and> d \<le> t + acquireTimeout cfg"
    by (auto simp: acquire_def totalConnections_def)
next
  assume "queue p = w # ws \<and> conn \<in> set (active p)"
  then show "release conn p = (Some (waiter_id w), p\<lparr>queue := ws\<rparr>)"
    by (simp add: release_def)
next
  assume a: "x \<in> set (queue p) \<and> deadline x \<le> t"
  then have due: "list_ex (\<lambda>y. waiter_id y = waiter_id x \<and> deadline y \<le> t) (queue p)"
    by (auto simp: list_ex_iff)
  then show "fst (time_out (waiter_id x) t p) = Some (Error ''Connection acquire timeout'')"
    by (simp add: time_out_def)
  from due show q: "queue (snd (time_out (waiter_id x) t p))
             = filter (\<lambda>y. waiter_id y \<noteq> waiter_id x) (queue p)"
    by (simp add: time_out_def)
  show "x \<notin> set (queue (snd (time_out (waiter_id x) t p)))"
    unfolding q by simp
qed

theorem C9_acquire_witness:
  "idle (snd (release 0 exhausted_pool)) = [0]
   \<and> acquire demo_pool_config 10 (snd (release 0 exhausted_pool))
       = (Connection 0, (snd (release 0 exhausted_pool))\<lparr>idle := [],
            active := active (snd (release 0 exhausted_pool)) @ [0]\<rparr>)
   \<and> idle (exhausted_pool\<lparr>active := [], created := 0\<rparr>) = []
   \<and> totalConnections (exhausted_pool\<lparr>active := [], created := 0\<rparr>) < maxConnections demo_pool_config
   \<and> fst (acquire demo_pool_config 10 (exhausted_pool\<lparr>active := [], created := 0\<rparr>)) = Connection 0
   \<and> totalConnections (snd (acquire demo_pool_config 10 (exhausted_pool\<lparr>active := [], created := 0\<rparr>)))
       = totalConnections (exhausted_pool\<lparr>active := [], created := 0\<rparr>) + 1
   \<and> idle exhausted_pool = []
   \<and> maxConnections demo_pool_config \<le> totalConnections exhausted_pool
   \<and> 0 \<le> acquireTimeout demo_pool_config
   \<and> fst (acquire demo_pool_config 10 exhausted_pool) = Enqueued 0
   \<and> queue (snd (acquire demo_pool_config 10 exhausted_pool)) = [\<lparr>waiter_id = 0, deadline = 5010\<rparr>]
   \<and> 0 \<in> set (active (snd (acquire demo_pool_config 10 exhausted_pool)))
   \<and> release 0 (snd (acquire demo_pool_config 10 exhausted_pool))
       = (Some 0, (snd (acquire demo_pool_config 10 exhausted_pool))\<lparr>queue := []\<rparr>)
   \<and> \<lparr>waiter_id = 0, deadline = 5010\<rparr> \<in> set (queue (snd (acquire demo_pool_config 10 exhausted_pool)))
   \<and> fst (time_out 0 5010 (snd (acquire demo_pool_config 10 exhausted_pool)))
       = Some (Error ''Connection acquire timeout'')
   \<and> queue (snd (time_out 0 5010 (snd (acquire demo_pool_config 10 exhausted_pool)))) = []"
proof -
  let ?released = "snd (release 0 exhausted_pool)"
  let ?fresh = "exhausted_pool\<lparr>active := [], created := 0\<rparr>"
  let ?queued = "snd (acquire demo_pool_config 10 exhausted_pool)"
  let ?x = "\<lparr>waiter_id = 0, deadline = 5010\<rparr>"
  have h1: "idle ?released = 0 # []"
    by (simp add: release_def exhausted_pool_def)
  have h2: "idle ?fresh = [] \<and> totalConnections ?fresh < maxConnections demo_pool_config"
    by (simp add: exhausted_pool_def totalConnections_def demo_pool_config_def)
  have h3: "idle exhausted_pool = [] \<and> maxConnections demo_pool_config \<le> totalConnections exhausted_pool
      \<and> 0 \<le> acquireTimeout demo_pool_config"
    by (simp add: exhausted_pool_def totalConnections_def demo_pool_config_def)
  have q: "queue ?queued = ?x # []"
    by (simp add: acquire_def exhausted_pool_def totalConnections_def demo_pool_config_def)
  have act: "0 \<in> set (active ?queued)"
    by (simp add: acquire_def exhausted_pool_def totalConnections_def demo_pool_config_def)
  have h5: "?x \<in> set (queue ?queued) \<and> deadline ?x \<le> 5010"
    by (simp add: q)
  note c1 = C9_acquire[where p = ?released and cfg = demo_pool_config and t = 10,
      THEN conjunct1, rule_format, OF h1]
  note c2 = C9_acquire[where p = ?fresh and cfg = demo_pool_config and t = 10,
      THEN conjunct2, THEN conjunct1, rule_format, OF h2]
  note c3 = C9_acquire[where p = exhausted_pool and cfg = demo_pool_config and t = 10,
      THEN conjunct2, THEN conjunct2, THEN conjunct1, rule_format, OF h3]
  note c4 = C9_acquire[where p = ?queued and conn = 0,
      THEN conjunct2, THEN conjunct2, THEN conjunct2, THEN conjunct1, rule_format,
      OF conjI[OF q act]]
  note c5 = C9_acquire[where p = ?queued and t = 5010,
      THEN conjunct2, THEN conjunct2, THEN conjunct2, THEN conjunct2, rule_format, OF h5]
  from c5 q have emptied: "queue (snd (time_out 0 5010 ?queued)) = []"
    by simp
  from c1 c2 c3 c4 c5 h1 h2 h3 q act h5 emptied show ?thesis
    by (simp add: exhausted_pool_def)
qed


end
